theory Spec2Isabelle
  imports Main
begin

text \<open>
  The Demox MCP server: the credential store and the browser login of
  \<open>OAuthManager\<close>, the tool-call handler of \<open>DemoxMCPServer\<close> with its one retry after
  a fresh login, and the input handling and the list operation of \<open>DemoxClient\<close>.
  Functions that only touch the outside world (the file system, the browser, the
  network, the clock, the random numbers) take what the outside world does as an
  argument; everything the code itself decides is a definition.
\<close>

section \<open>JavaScript values\<close>

text \<open>
  A JavaScript string is the list of its UTF-16 code units. \<open>asc\<close> turns an ASCII
  literal into such a list; the Chinese literals of the source are written as their code
  units, with the source line they stand on.
\<close>

type_synonym jsstring = "nat list"

definition asc :: "string \<Rightarrow> jsstring" where
  "asc s = map of_char s"

text \<open>\<open>String.prototype.startsWith\<close>, \<open>endsWith\<close> and \<open>includes\<close>.\<close>

definition startsWith :: "jsstring \<Rightarrow> jsstring \<Rightarrow> bool" where
  "startsWith s p = (take (length p) s = p)"

definition endsWith :: "jsstring \<Rightarrow> jsstring \<Rightarrow> bool" where
  "endsWith s p = (length p \<le> length s \<and> drop (length s - length p) s = p)"

fun js_includes :: "jsstring \<Rightarrow> jsstring \<Rightarrow> bool" where
  "js_includes [] t = (t = [])"
| "js_includes (c # s) t = (startsWith (c # s) t \<or> js_includes s t)"

text \<open>\<open>s.substring(a, b)\<close> for constants \<open>a \<le> b\<close>: indices past the end are clamped.\<close>

definition substring :: "jsstring \<Rightarrow> nat \<Rightarrow> nat \<Rightarrow> jsstring" where
  "substring s a b = take (b - a) (drop a s)"

text \<open>
  A value of type \<open>string | null\<close> used as a condition: \<open>null\<close> and the empty string are
  falsy. \<open>truthy_str v\<close> is \<open>Some s\<close> exactly when \<open>v\<close> is the non-empty string \<open>s\<close>.
\<close>

definition truthy_str :: "jsstring option \<Rightarrow> jsstring option" where
  "truthy_str v = (case v of None \<Rightarrow> None | Some s \<Rightarrow> if s = [] then None else Some s)"

text \<open>
  Thrown values. \<open>Error\<close> is \<open>new Error(message)\<close>, the only error the repository's own
  code constructs; \<open>SystemError\<close> is what the \<open>fs\<close> and \<open>fetch\<close> calls reject with,
  \<open>SyntaxError\<close> what \<open>JSON.parse\<close> throws, \<open>TypeError\<close> a property read on \<open>null\<close>,
  \<open>InvalidCharacterError\<close> what \<open>atob\<close> and \<open>btoa\<close> throw.
\<close>

datatype error =
    Error (message: jsstring)
  | SystemError (message: jsstring)
  | SyntaxError (message: jsstring)
  | TypeError (message: jsstring)
  | InvalidCharacterError (message: jsstring)

text \<open>
  The result of an \<open>async\<close> function is the final state of its promise; \<open>Pending\<close> is a
  promise that never settles.
\<close>

datatype 'a promise = Pending | Fulfilled 'a | Rejected error

definition resolve :: "'a promise \<Rightarrow> 'a \<Rightarrow> 'a promise" where
  "resolve p v = (case p of Pending \<Rightarrow> Fulfilled v | _ \<Rightarrow> p)"

definition reject :: "'a promise \<Rightarrow> error \<Rightarrow> 'a promise" where
  "reject p e = (case p of Pending \<Rightarrow> Rejected e | _ \<Rightarrow> p)"

section \<open>The credential record and its store (auth/OAuthManager)\<close>

record TokenData =
  accessToken :: jsstring
  refreshToken :: jsstring
  expiresAt :: int
  scopes :: "jsstring list"
  userId :: jsstring
  clientId :: jsstring

text \<open>
  The two fields of the result of \<open>loadConfig()\<close> that the manager reads.
  \<open>loadConfig()\<close> (utils/config) takes them from the environment variables
  \<open>DEMOX_CLIENT_ID\<close> and \<open>DEMOX_AUTH_URL\<close>, with defaults; its result is a parameter here.
\<close>

record config =
  cfg_clientId :: jsstring
  cfg_authUrl :: jsstring

text \<open>
  The file at \<open>tokenPath\<close>: missing, present but unreadable (\<open>fs.readFile\<close> rejects with
  the given message), or present with a content that \<open>JSON.parse\<close> either rejects (with
  the given message) or turns into a value: \<open>null\<close>, or a value other than \<open>null\<close>.
  \<open>loadToken\<close> hands that value on as it is and never looks at it (lines 236-239), so
  the file and the functions that read it are defined for values of any type \<open>'v\<close>.
  The manager reads the value it is handed as a record, as the return type of
  \<open>loadToken\<close> declares: it is defined where \<open>'v\<close> is the type of records.
\<close>

datatype 'v file_content = Malformed jsstring | JsonNull | Json 'v

datatype 'v token_file = NoFile | Unreadable jsstring | Content "'v file_content"

text \<open>What \<open>logger\<close> is given, by the line of the call.\<close>

datatype log_event =
    LoginStarted
  | BrowserNotOpened
  | LoginSucceeded
  | LoginFailed jsstring
  | UsingCachedToken
  | RenewSoon int
  | LoginRequired
  | TokenLoaded
  | LoadTokenFailed error
  | TokenSaved
  | SaveTokenFailed error
  | ToolCallFailed jsstring jsstring
  | AuthErrorDetected
  | RetryingToolCall
  | AutoLoginFailed jsstring

text \<open>What the callback listener writes to the browser: a status and a body.\<close>

datatype page =
    CancelledPage jsstring
  | SuccessPage
  | PlainText jsstring

record response =
  status :: nat
  body :: page

text \<open>
  Everything the manager reads and writes: the token file, its own \<open>currentToken\<close> field,
  the clock (\<open>Date.now()\<close>, epoch milliseconds), whether port 39897 is bound by the
  listener, the pages written to the browser, and the log.
\<close>

record 'v world =
  tokenFile :: "'v token_file"
  currentToken :: "'v option"
  clock :: int
  listening :: bool
  pages :: "response list"
  log :: "log_event list"

definition logged :: "log_event \<Rightarrow> 'v world \<Rightarrow> 'v world" where
  "logged ev w = w\<lparr>log := log w @ [ev]\<rparr>"

text \<open>The number of \<open>authorize()\<close> runs so far: each logs its start first (line 68).\<close>

definition logins :: "'v world \<Rightarrow> nat" where
  "logins w = length (filter (\<lambda>ev. ev = LoginStarted) (log w))"

subsection \<open>loadToken, saveToken, isTokenExpired\<close>

definition existsSync :: "'v token_file \<Rightarrow> bool" where
  "existsSync f = (f \<noteq> NoFile)"

definition readFile :: "'v token_file \<Rightarrow> error + 'v file_content" where
  "readFile f = (case f of
       NoFile \<Rightarrow> Inl (SystemError (asc ''ENOENT''))
     | Unreadable m \<Rightarrow> Inl (SystemError m)
     | Content c \<Rightarrow> Inr c)"

text \<open>\<open>JSON.parse\<close>: a \<open>SyntaxError\<close>, or the value, \<open>None\<close> standing for \<open>null\<close>.\<close>

definition JSON_parse :: "'v file_content \<Rightarrow> error + 'v option" where
  "JSON_parse c = (case c of
       Malformed m \<Rightarrow> Inl (SyntaxError m)
     | JsonNull \<Rightarrow> Inr None
     | Json v \<Rightarrow> Inr (Some v))"

text \<open>The body of the \<open>try\<close> block of \<open>loadToken\<close> (lines 231-239).\<close>

definition loadToken_try :: "'v world \<Rightarrow> (error + 'v option) \<times> 'v world" where
  "loadToken_try w =
     (if \<not> existsSync (tokenFile w) then (Inr None, w)
      else case readFile (tokenFile w) of
             Inl e \<Rightarrow> (Inl e, w)
           | Inr content \<Rightarrow>
               (case JSON_parse content of
                  Inl e \<Rightarrow> (Inl e, w)
                | Inr tokenData \<Rightarrow> (Inr tokenData, logged TokenLoaded w)))"

text \<open>\<open>loadToken\<close>: the \<open>catch\<close> block (lines 240-243) logs the error and returns \<open>null\<close>.\<close>

definition loadToken :: "'v world \<Rightarrow> ('v option) promise \<times> 'v world" where
  "loadToken w =
     (case loadToken_try w of
        (Inr r, w') \<Rightarrow> (Fulfilled r, w')
      | (Inl e, w') \<Rightarrow> (Fulfilled None, logged (LoadTokenFailed e) w'))"

text \<open>
  \<open>isTokenExpired\<close> (lines 275-281): expired from five minutes before \<open>expiresAt\<close> on.
\<close>

definition isTokenExpired :: "int \<Rightarrow> TokenData \<Rightarrow> bool" where
  "isTokenExpired now tokenData = (now \<ge> expiresAt tokenData - 5 * 60 * 1000)"

text \<open>
  \<open>generateRandomState\<close> (lines 286-289). Its two arguments are the strings the two
  \<open>Math.random().toString(36)\<close> calls produce.
\<close>

definition generateRandomState :: "jsstring \<Rightarrow> jsstring \<Rightarrow> jsstring" where
  "generateRandomState r1 r2 = substring r1 2 15 @ substring r2 2 15"

text \<open>
  What \<open>Math.random().toString(36)\<close> can be: \<open>0\<close> for the number zero, otherwise \<open>0.\<close>
  followed by one or more digits of base 36 (\<open>0-9\<close>, \<open>a-z\<close>).
\<close>

definition base36_digit :: "nat \<Rightarrow> bool" where
  "base36_digit c = ((48 \<le> c \<and> c \<le> 57) \<or> (97 \<le> c \<and> c \<le> 122))"

definition random_string :: "jsstring \<Rightarrow> bool" where
  "random_string r =
     (r = asc ''0'' \<or>
      (take 2 r = asc ''0.'' \<and> drop 2 r \<noteq> [] \<and> list_all base36_digit (drop 2 r)))"

subsection \<open>One run of the login flow\<close>

text \<open>
  What the outside world does during one \<open>authorize()\<close> run: the two random strings,
  whether \<open>open(authUrl)\<close> throws, the callback requests that reach port 39897 (each
  with its arrival time in milliseconds after the listener started, in arrival order),
  how many milliseconds late the timers fire, and the error of \<open>fs.mkdir\<close> or
  \<open>fs.writeFile\<close>, if any.
\<close>

record request =
  access_token :: "jsstring option"
  refresh_token :: "jsstring option"
  user_id :: "jsstring option"
  state_q :: "jsstring option"
  error_q :: "jsstring option"

record login_env =
  random1 :: jsstring
  random2 :: jsstring
  open_fails :: bool
  requests :: "(nat \<times> request) list"
  timer_lag :: nat
  write_error :: "error option"

text \<open>
  The messages and bodies of lines 155, 163, 165, 208, 210, 221 and 296. In English:
  "OAuth authorization failed: " (followed by the error parameter); "OAuth state
  mismatch, there may be a security risk"; "State mismatch"; "required parameters
  missing"; "required OAuth parameters missing"; "login timed out (5 minutes)";
  "operation timed out".
\<close>

definition oauth_failed_prefix :: jsstring where
  "oauth_failed_prefix = asc ''OAuth '' @ [25480, 26435, 22833, 36133] @ asc '': ''"

definition state_mismatch_msg :: jsstring where
  "state_mismatch_msg = asc ''OAuth state '' @
     [19981, 21305, 37197, 65292, 21487, 33021, 23384, 22312, 23433, 20840, 39118, 38505]"

definition state_mismatch_body :: jsstring where
  "state_mismatch_body = asc ''State '' @ [19981, 21305, 37197]"

definition missing_params_body :: jsstring where
  "missing_params_body = [32570, 23569, 24517, 35201, 30340, 21442, 25968]"

definition missing_params_msg :: jsstring where
  "missing_params_msg = [32570, 23569, 24517, 35201, 30340] @ asc '' OAuth '' @ [21442, 25968]"

definition login_timeout_msg :: jsstring where
  "login_timeout_msg = [30331, 24405, 36229, 26102, 65288] @ asc ''5 '' @ [20998, 38047, 65289]"

definition operation_timeout_msg :: jsstring where
  "operation_timeout_msg = [25805, 20316, 36229, 26102]"

definition full_scopes :: "jsstring list" where
  "full_scopes = [asc ''website:deploy'', asc ''website:list'', asc ''website:delete'',
                  asc ''website:update'']"

text \<open>
  The listener of \<open>startLocalServer\<close>: whether the server is bound, the promise
  \<open>startLocalServer\<close> returns, the promise \<open>createTimeout\<close> returns, and the responses
  written so far.
\<close>

record listener =
  server_open :: bool
  serverPromise :: "TokenData promise"
  timeoutPromise :: "TokenData promise"
  rendered :: "response list"

definition respond :: "nat \<Rightarrow> page \<Rightarrow> listener \<Rightarrow> listener" where
  "respond code pg l = l\<lparr>rendered := rendered l @ [\<lparr>status = code, body = pg\<rparr>]\<rparr>"

definition server_close :: "listener \<Rightarrow> listener" where
  "server_close l = l\<lparr>server_open := False\<rparr>"

text \<open>The request callback of \<open>http.createServer\<close> (lines 125-212).\<close>

definition requestHandler ::
  "config \<Rightarrow> jsstring \<Rightarrow> int \<Rightarrow> request \<Rightarrow> listener \<Rightarrow> listener" where
  "requestHandler cfg expectedState now req l =
     (case truthy_str (error_q req) of
        Some err \<Rightarrow>
          (let l1 = server_close (respond 200 (CancelledPage err) l)
           in l1\<lparr>serverPromise := reject (serverPromise l1) (Error (oauth_failed_prefix @ err))\<rparr>)
      | None \<Rightarrow>
          (case (truthy_str (access_token req), truthy_str (state_q req)) of
             (Some token, Some st) \<Rightarrow>
               (if st \<noteq> expectedState then
                  (let l1 = server_close (respond 400 (PlainText state_mismatch_body) l)
                   in l1\<lparr>serverPromise := reject (serverPromise l1) (Error state_mismatch_msg)\<rparr>)
                else
                  (let l1 = server_close (respond 200 SuccessPage l);
                       tokenData =
                         \<lparr>accessToken = token,
                          refreshToken =
                            (case truthy_str (refresh_token req) of Some r \<Rightarrow> r | None \<Rightarrow> token),
                          expiresAt = now + 30 * 24 * 60 * 60 * 1000,
                          scopes = full_scopes,
                          userId = (case truthy_str (user_id req) of Some u \<Rightarrow> u | None \<Rightarrow> []),
                          clientId = cfg_clientId cfg\<rparr>
                   in l1\<lparr>serverPromise := resolve (serverPromise l1) tokenData\<rparr>))
           | _ \<Rightarrow>
               (let l1 = server_close (respond 400 (PlainText missing_params_body) l)
                in l1\<lparr>serverPromise := reject (serverPromise l1) (Error missing_params_msg)\<rparr>)))"

text \<open>
  The two timers: the one \<open>startLocalServer\<close> sets (lines 219-222) and the one
  \<open>createTimeout\<close> sets (line 296). \<open>setTimeout\<close> keeps the pending timers in the order
  they fire: by delay, and in creation order among equal delays.
\<close>

datatype timer_callback = ServerTimeout | RaceTimeout

fun setTimeout ::
  "nat \<times> timer_callback \<Rightarrow> (nat \<times> timer_callback) list \<Rightarrow> (nat \<times> timer_callback) list" where
  "setTimeout x [] = [x]"
| "setTimeout x (y # ys) = (if fst x < fst y then x # y # ys else y # setTimeout x ys)"

datatype event = Request request | TimerFires timer_callback

fun deliver :: "(int \<Rightarrow> request \<Rightarrow> listener \<Rightarrow> listener) \<Rightarrow> int \<Rightarrow> event \<Rightarrow> listener \<Rightarrow> listener" where
  "deliver h now (Request req) l = (if server_open l then h now req l else l)"
| "deliver h now (TimerFires ServerTimeout) l =
     (let l1 = server_close l
      in l1\<lparr>serverPromise := reject (serverPromise l1) (Error login_timeout_msg)\<rparr>)"
| "deliver h now (TimerFires RaceTimeout) l =
     l\<lparr>timeoutPromise := reject (timeoutPromise l) (Error operation_timeout_msg)\<rparr>"

text \<open>
  The events of one run in the order the event loop delivers them: a request that
  arrives before a timer is due comes first.
\<close>

fun merge_events ::
  "(nat \<times> request) list \<Rightarrow> (nat \<times> timer_callback) list \<Rightarrow> (nat \<times> event) list" where
  "merge_events [] [] = []"
| "merge_events ((t, r) # rs) [] = (t, Request r) # merge_events rs []"
| "merge_events [] ((d, c) # ts) = (d, TimerFires c) # merge_events [] ts"
| "merge_events ((t, r) # rs) ((d, c) # ts) =
     (if t < d then (t, Request r) # merge_events rs ((d, c) # ts)
      else (d, TimerFires c) # merge_events ((t, r) # rs) ts)"

definition timeline :: "login_env \<Rightarrow> nat \<Rightarrow> (nat \<times> event) list" where
  "timeline env ms =
     merge_events (requests env)
       (map (\<lambda>(d, c). (d + timer_lag env, c))
          (setTimeout (ms, RaceTimeout) (setTimeout (300000, ServerTimeout) [])))"

text \<open>\<open>Promise.race([startLocalServer(state), createTimeout(ms)])\<close>: the first to settle.\<close>

definition race :: "listener \<Rightarrow> TokenData promise" where
  "race l = (case serverPromise l of Pending \<Rightarrow> timeoutPromise l | p \<Rightarrow> p)"

text \<open>
  Waiting for the race: events are delivered until it settles. The result is the
  settled promise, the time of the event that settled it, and the listener then.
\<close>

fun await_race ::
  "(int \<Rightarrow> request \<Rightarrow> listener \<Rightarrow> listener) \<Rightarrow> int \<Rightarrow> (nat \<times> event) list \<Rightarrow> listener
     \<Rightarrow> TokenData promise \<times> nat \<times> listener" where
  "await_race h started [] l = (race l, 0, l)"
| "await_race h started ((t, ev) # evs) l =
     (let l1 = deliver h (started + int t) ev l
      in if race l1 = Pending then await_race h started evs l1 else (race l1, t, l1))"

definition saveToken ::
  "login_env \<Rightarrow> TokenData \<Rightarrow> TokenData world \<Rightarrow> unit promise \<times> TokenData world" where
  "saveToken env tokenData w =
     (case write_error env of
        Some e \<Rightarrow> (Rejected e, logged (SaveTokenFailed e) w)
      | None \<Rightarrow>
          (Fulfilled (),
           logged TokenSaved (w\<lparr>tokenFile := Content (Json tokenData),
                                currentToken := Some tokenData\<rparr>)))"

text \<open>
  \<open>authorize\<close> (lines 67-118). The authorization URL is only printed and handed to the
  browser; the time \<open>open\<close> takes is not counted.
\<close>

definition authorize ::
  "config \<Rightarrow> login_env \<Rightarrow> TokenData world \<Rightarrow> jsstring promise \<times> TokenData world" where
  "authorize cfg env w =
     (let w1 = logged LoginStarted w;
          state = generateRandomState (random1 env) (random2 env);
          w2 = (if open_fails env then logged BrowserNotOpened w1 else w1);
          l0 = \<lparr>server_open = True, serverPromise = Pending, timeoutPromise = Pending,
                rendered = []\<rparr>;
          (p, t, l) = await_race (requestHandler cfg state) (clock w2) (timeline env 300000) l0;
          w3 = w2\<lparr>clock := clock w2 + int t, listening := server_open l,
                  pages := pages w2 @ rendered l\<rparr>
      in case p of
           Pending \<Rightarrow> (Pending, w3)
         | Rejected e \<Rightarrow> (Rejected e, logged (LoginFailed (message e)) w3)
         | Fulfilled tokenData \<Rightarrow>
             (case saveToken env tokenData w3 of
                (Fulfilled u, w4) \<Rightarrow> (Fulfilled (accessToken tokenData), logged LoginSucceeded w4)
              | (Rejected e, w4) \<Rightarrow> (Rejected e, logged (LoginFailed (message e)) w4)
              | (Pending, w4) \<Rightarrow> (Pending, w4)))"

text \<open>\<open>ensureAuthenticated\<close> (lines 38-62).\<close>

definition ensureAuthenticated ::
  "config \<Rightarrow> login_env \<Rightarrow> TokenData world \<Rightarrow> jsstring promise \<times> TokenData world" where
  "ensureAuthenticated cfg env w =
     (case loadToken w of
        (Fulfilled (Some tokenData), w1) \<Rightarrow>
          (if \<not> isTokenExpired (clock w1) tokenData then
             (let w2 = logged UsingCachedToken (w1\<lparr>currentToken := Some tokenData\<rparr>);
                  daysLeft = (expiresAt tokenData - clock w2) div (1000 * 60 * 60 * 24);
                  w3 = (if daysLeft \<le> 3 then logged (RenewSoon daysLeft) w2 else w2)
              in (Fulfilled (accessToken tokenData), w3))
           else authorize cfg env (logged LoginRequired w1))
      | (Fulfilled None, w1) \<Rightarrow> authorize cfg env (logged LoginRequired w1)
      | (Rejected e, w1) \<Rightarrow> (Rejected e, w1)
      | (Pending, w1) \<Rightarrow> (Pending, w1))"

section \<open>The tool-call dispatcher (class DemoxMCPServer, the CallToolRequestSchema handler)\<close>

record tool_result =
  content_text :: jsstring
  isError :: bool

text \<open>
  The texts of lines 497, 540-550 and 562. In English: "unknown tool: "; "error: "
  after a cross mark; and, around the message of the error, "automatic login failed",
  "error message: " and then "please run the following command by hand to log in:
  demox-mcp login; once logged in, call this tool again".
\<close>

definition unknown_tool_prefix :: jsstring where
  "unknown_tool_prefix = [26410, 30693, 24037, 20855] @ asc '': ''"

definition error_text_prefix :: jsstring where
  "error_text_prefix = [10060] @ asc '' '' @ [38169, 35823] @ asc '': ''"

definition auto_login_head :: jsstring where
  "auto_login_head = [10060] @ asc '' **'' @ [33258, 21160, 30331, 24405, 22833, 36133] @
     asc ''**'' @ [10, 10, 38169, 35823, 20449, 24687] @ asc '': ''"

definition auto_login_tail :: jsstring where
  "auto_login_tail =
     [10, 10, 35831, 23581, 35797, 25163, 21160, 36816, 34892, 20197, 19979, 21629, 20196,
      23436, 25104, 30331, 24405, 65306, 10, 10, 96, 96, 96] @ asc ''bash'' @ [10] @
     asc ''demox-mcp login'' @
     [10, 96, 96, 96, 10, 10, 30331, 24405, 23436, 25104, 21518, 65292, 35831, 37325, 26032,
      35843, 29992, 27492, 24037, 20855, 12290]"

text \<open>The result of the outer \<open>catch\<close> (lines 558-566) and of the inner one (536-554).\<close>

definition errorResult :: "jsstring \<Rightarrow> tool_result" where
  "errorResult msg = \<lparr>content_text = error_text_prefix @ msg, isError = True\<rparr>"

definition autoLoginFailed :: "jsstring \<Rightarrow> tool_result" where
  "autoLoginFailed msg =
     \<lparr>content_text = auto_login_head @ msg @ auto_login_tail, isError = True\<rparr>"

text \<open>
  \<open>isAuthError\<close> (lines 503-507): the message contains \<open>Token\<close>, one of the two Chinese
  words for authentication and login, \<open>UNAUTHORIZED\<close> or \<open>401\<close>.
\<close>

definition isAuthError :: "jsstring \<Rightarrow> bool" where
  "isAuthError m =
     (js_includes m (asc ''Token'') \<or> js_includes m [35748, 35777] \<or>
      js_includes m [30331, 24405] \<or> js_includes m (asc ''UNAUTHORIZED'') \<or>
      js_includes m (asc ''401''))"

text \<open>
  The four \<open>handle...\<close> methods call the backend; what each returns for the arguments of
  this request, given the access token, is a parameter.
\<close>

record handlers =
  handleDeploy :: "jsstring \<Rightarrow> tool_result promise"
  handleList :: "jsstring \<Rightarrow> tool_result promise"
  handleGet :: "jsstring \<Rightarrow> tool_result promise"
  handleDelete :: "jsstring \<Rightarrow> tool_result promise"

text \<open>The \<open>switch (name)\<close> of lines 487-498 and 522-533.\<close>

definition routeTool :: "handlers \<Rightarrow> jsstring \<Rightarrow> jsstring \<Rightarrow> tool_result promise" where
  "routeTool h name token =
     (if name = asc ''deploy_website'' then handleDeploy h token
      else if name = asc ''list_websites'' then handleList h token
      else if name = asc ''get_website'' then handleGet h token
      else if name = asc ''delete_website'' then handleDelete h token
      else Rejected (Error (unknown_tool_prefix @ name)))"

text \<open>
  What the outside world does during one tool call: the login run that
  \<open>ensureAuthenticated\<close> starts if it has to, the login run of the retry path, and what
  the handlers return on the first attempt and on the retry.
\<close>

record tool_env =
  login1 :: login_env
  login2 :: login_env
  first_attempt :: handlers
  retry_attempt :: handlers

definition callToolRequest ::
  "config \<Rightarrow> tool_env \<Rightarrow> jsstring \<Rightarrow> TokenData world \<Rightarrow>
     tool_result promise \<times> TokenData world" where
  "callToolRequest cfg env name w =
     (let (tok, w1) = ensureAuthenticated cfg (login1 env) w;
          attempt = (case tok of
                       Fulfilled token \<Rightarrow> routeTool (first_attempt env) name token
                     | Rejected e \<Rightarrow> Rejected e
                     | Pending \<Rightarrow> Pending)
      in case attempt of
           Fulfilled r \<Rightarrow> (Fulfilled r, w1)
         | Pending \<Rightarrow> (Pending, w1)
         | Rejected err \<Rightarrow>
             (let w2 = logged (ToolCallFailed name (message err)) w1
              in if isAuthError (message err) then
                   (let (tok2, w3) = authorize cfg (login2 env) (logged AuthErrorDetected w2);
                        (retry, w4) =
                          (case tok2 of
                             Fulfilled newToken \<Rightarrow>
                               (routeTool (retry_attempt env) name newToken,
                                logged RetryingToolCall w3)
                           | Rejected e \<Rightarrow> (Rejected e, w3)
                           | Pending \<Rightarrow> (Pending, w3))
                    in case retry of
                         Fulfilled r \<Rightarrow> (Fulfilled r, w4)
                       | Pending \<Rightarrow> (Pending, w4)
                       | Rejected loginError \<Rightarrow>
                           (Fulfilled (autoLoginFailed (message loginError)),
                            logged (AutoLoginFailed (message loginError)) w4))
                 else (Fulfilled (errorResult (message err)), w2)))"

section \<open>The remote operations client (api/DemoxClient.ts)\<close>

subsection \<open>atob, btoa and isBase64\<close>

text \<open>
  \<open>atob\<close> and \<open>btoa\<close> are the platform's: \<open>atob\<close> is the forgiving-base64 decode of the
  WHATWG Infra standard (ASCII whitespace is dropped, padding is optional, a length of
  1 modulo 4 and a character outside the alphabet fail), \<open>btoa\<close> the base64 encoding
  of a string of code units below 256.
\<close>

definition b64_alphabet :: "nat \<Rightarrow> bool" where
  "b64_alphabet c =
     ((65 \<le> c \<and> c \<le> 90) \<or> (97 \<le> c \<and> c \<le> 122) \<or> (48 \<le> c \<and> c \<le> 57) \<or> c = 43 \<or> c = 47)"

definition b64_index :: "nat \<Rightarrow> nat" where
  "b64_index c =
     (if 65 \<le> c \<and> c \<le> 90 then c - 65
      else if 97 \<le> c \<and> c \<le> 122 then c - 71
      else if 48 \<le> c \<and> c \<le> 57 then c + 4
      else if c = 43 then 62 else 63)"

definition b64_char :: "nat \<Rightarrow> nat" where
  "b64_char v =
     (if v < 26 then v + 65 else if v < 52 then v + 71 else if v < 62 then v - 4
      else if v = 62 then 43 else 47)"

fun decode_sextets :: "nat list \<Rightarrow> nat list" where
  "decode_sextets (a # b # c # d # rest) =
     [a * 4 + b div 16, (b mod 16) * 16 + c div 4, (c mod 4) * 64 + d] @ decode_sextets rest"
| "decode_sextets [a, b, c] = [a * 4 + b div 16, (b mod 16) * 16 + c div 4]"
| "decode_sextets [a, b] = [a * 4 + b div 16]"
| "decode_sextets [a] = []"
| "decode_sextets [] = []"

fun encode_bytes :: "nat list \<Rightarrow> nat list" where
  "encode_bytes (x # y # z # rest) =
     [b64_char (x div 4), b64_char ((x mod 4) * 16 + y div 16),
      b64_char ((y mod 16) * 4 + z div 64), b64_char (z mod 64)] @ encode_bytes rest"
| "encode_bytes [x, y] =
     [b64_char (x div 4), b64_char ((x mod 4) * 16 + y div 16), b64_char ((y mod 16) * 4), 61]"
| "encode_bytes [x] = [b64_char (x div 4), b64_char ((x mod 4) * 16), 61, 61]"
| "encode_bytes [] = []"

definition ascii_whitespace :: "nat \<Rightarrow> bool" where
  "ascii_whitespace c = (c = 9 \<or> c = 10 \<or> c = 12 \<or> c = 13 \<or> c = 32)"

definition strip_padding :: "jsstring \<Rightarrow> jsstring" where
  "strip_padding d =
     (if length d mod 4 = 0 then
        (if endsWith d [61, 61] then butlast (butlast d)
         else if endsWith d [61] then butlast d else d)
      else d)"

definition atob :: "jsstring \<Rightarrow> error + jsstring" where
  "atob str =
     (let d = strip_padding (filter (\<lambda>c. \<not> ascii_whitespace c) str)
      in if length d mod 4 = 1 \<or> \<not> list_all b64_alphabet d
         then Inl (InvalidCharacterError (asc ''Invalid character''))
         else Inr (decode_sextets (map b64_index d)))"

definition btoa :: "jsstring \<Rightarrow> error + jsstring" where
  "btoa str =
     (if list_all (\<lambda>c. c < 256) str then Inr (encode_bytes str)
      else Inl (InvalidCharacterError (asc ''Invalid character'')))"

text \<open>
  \<open>isBase64\<close> (lines 330-338): the round trip through \<open>atob\<close> and \<open>btoa\<close>, and in the
  \<open>catch\<close> block the test for a long string without a path separator.
\<close>

definition isBase64 :: "jsstring \<Rightarrow> bool" where
  "isBase64 str =
     (case (case atob str of Inl e \<Rightarrow> Inl e | Inr bytes \<Rightarrow> btoa bytes) of
        Inr again \<Rightarrow> again = str
      | Inl e \<Rightarrow>
          \<not> js_includes str (asc ''/'') \<and> \<not> js_includes str [92] \<and> length str > 100)"

subsection \<open>deployWebsite: from the input to a local ZIP file\<close>

text \<open>
  \<open>toLowerCase\<close> on the ASCII letters. JavaScript lowers letters outside ASCII too;
  none of them becomes a code unit of \<open>.zip\<close> next to the others, so the suffix tests
  below are not affected.
\<close>

definition toLowerCase :: "jsstring \<Rightarrow> jsstring" where
  "toLowerCase s = map (\<lambda>c. if 65 \<le> c \<and> c \<le> 90 then c + 32 else c) s"

text \<open>
  The messages of lines 110, 118, 132 and 182. In English: "only ZIP files are
  supported, the URL must end in .zip"; "passing Base64 content directly is not
  supported, give the path or the URL of a ZIP file"; "unsupported file type, only
  .zip files and directories are supported"; "path does not exist: ".
\<close>

definition url_not_zip_msg :: jsstring where
  "url_not_zip_msg = [21482, 25903, 25345] @ asc '' ZIP '' @ [25991, 20214, 65292] @
     asc ''URL '' @ [24517, 39035, 20197] @ asc '' .zip '' @ [32467, 23614]"

definition base64_unsupported_msg :: jsstring where
  "base64_unsupported_msg = [19981, 25903, 25345, 30452, 25509, 20256, 20837] @
     asc '' Base64 '' @ [20869, 23481, 65292, 35831, 25552, 20379] @ asc '' ZIP '' @
     [25991, 20214, 36335, 24452, 25110] @ asc '' URL''"

definition unsupported_type_msg :: jsstring where
  "unsupported_type_msg =
     [19981, 25903, 25345, 30340, 25991, 20214, 31867, 22411, 65292, 20165, 25903, 25345] @
     asc '' .zip '' @ [25991, 20214, 25110, 30446, 24405]"

definition path_missing_prefix :: jsstring where
  "path_missing_prefix = [36335, 24452, 19981, 23384, 22312] @ asc '': ''"

text \<open>The local file system: what \<open>fs.statSync\<close> says of a path, if it exists.\<close>

record path_stat =
  isFile :: bool
  isDirectory :: bool
  size :: nat

type_synonym filesystem = "jsstring \<Rightarrow> path_stat option"

definition getPathStat :: "filesystem \<Rightarrow> jsstring \<Rightarrow> error + path_stat" where
  "getPathStat fs filePath =
     (case fs filePath of
        None \<Rightarrow> Inl (Error (path_missing_prefix @ filePath))
      | Some st \<Rightarrow> Inr st)"

text \<open>
  How \<open>deployWebsite\<close> gets its local ZIP file (lines 107-134): by downloading the URL
  to a temporary file, by archiving the directory into one, or by taking the path as
  it is.
\<close>

datatype resolution = Download jsstring | ZipDirectory jsstring | UseAsIs jsstring

definition deployWebsite_resolve :: "filesystem \<Rightarrow> jsstring \<Rightarrow> error + resolution" where
  "deployWebsite_resolve fs zipFile =
     (if startsWith zipFile (asc ''http://'') \<or> startsWith zipFile (asc ''https://'') then
        (if \<not> endsWith (toLowerCase zipFile) (asc ''.zip'') then Inl (Error url_not_zip_msg)
         else Inr (Download zipFile))
      else if isBase64 zipFile \<and> \<not> startsWith zipFile (asc ''/'') \<and>
              \<not> startsWith zipFile (asc ''.'')
      then Inl (Error base64_unsupported_msg)
      else
        (case getPathStat fs zipFile of
           Inl e \<Rightarrow> Inl e
         | Inr st \<Rightarrow>
             if isDirectory st then Inr (ZipDirectory zipFile)
             else if endsWith (toLowerCase zipFile) (asc ''.zip'') then Inr (UseAsIs zipFile)
             else Inl (Error unsupported_type_msg)))"

subsection \<open>callFunction and listWebsites\<close>

text \<open>
  A parsed JSON value. An object keeps its members in the order of the text; of a
  repeated key the last member counts. Of a number only whether it is zero matters
  here, so numbers are integers.
\<close>

datatype json =
    JNull
  | JBool bool
  | JNum int
  | JStr jsstring
  | JArr "json list"
  | JObj "(jsstring \<times> json) list"

text \<open>
  A property read \<open>v.key\<close> for the keys the client reads (none of them a property of
  a string, a number, a boolean or an array): \<open>None\<close> is \<open>undefined\<close>, and reading from
  \<open>null\<close> throws.
\<close>

definition member :: "json \<Rightarrow> jsstring \<Rightarrow> json option" where
  "member v key = (case v of JObj members \<Rightarrow> map_of (rev members) key | _ \<Rightarrow> None)"

definition get_prop :: "json \<Rightarrow> jsstring \<Rightarrow> error + json option" where
  "get_prop v key =
     (case v of
        JNull \<Rightarrow>
          Inl (TypeError (asc ''Cannot read properties of null (reading '' @ [39] @ key @ [39] @
                          asc '')''))
      | _ \<Rightarrow> Inr (member v key))"

definition truthy :: "json option \<Rightarrow> bool" where
  "truthy v =
     (case v of
        None \<Rightarrow> False
      | Some JNull \<Rightarrow> False
      | Some (JBool b) \<Rightarrow> b
      | Some (JNum n) \<Rightarrow> n \<noteq> 0
      | Some (JStr s) \<Rightarrow> s \<noteq> []
      | Some (JArr xs) \<Rightarrow> True
      | Some (JObj members) \<Rightarrow> True)"

text \<open>The decimal digits of a natural number, and a value inside a template literal.\<close>

fun decimal :: "nat \<Rightarrow> jsstring" where
  "decimal n = (if n < 10 then [48 + n] else decimal (n div 10) @ [48 + n mod 10])"

fun join_comma :: "jsstring list \<Rightarrow> jsstring" where
  "join_comma [] = []"
| "join_comma [s] = s"
| "join_comma (s # t # ss) = s @ [44] @ join_comma (t # ss)"

fun js_toString :: "json \<Rightarrow> jsstring" where
  "js_toString JNull = asc ''null''"
| "js_toString (JBool b) = (if b then asc ''true'' else asc ''false'')"
| "js_toString (JNum n) = (if n < 0 then [45] @ decimal (nat (- n)) else decimal (nat n))"
| "js_toString (JStr s) = s"
| "js_toString (JArr xs) =
     join_comma (map (\<lambda>x. if x = JNull then [] else js_toString x) xs)"
| "js_toString (JObj members) = asc ''[object Object]''"

definition template :: "json option \<Rightarrow> jsstring" where
  "template v = (case v of None \<Rightarrow> asc ''undefined'' | Some x \<Rightarrow> js_toString x)"

text \<open>
  What \<open>fetch\<close> answers: whether the status is one of 200-299, the status, the body as
  text, and the body as \<open>response.json()\<close> reads it (the message of its SyntaxError
  when the body is not JSON).
\<close>

record http_response =
  resp_ok :: bool
  resp_status :: nat
  resp_text :: jsstring
  resp_json :: "jsstring + json"

definition suggestion_prefix :: jsstring where
  "suggestion_prefix = [10, 24314, 35758, 65306]"

text \<open>
  The message of the error thrown for an error envelope (lines 82-85); the envelope is
  truthy there, so that reading its properties does not throw.
\<close>

definition envelope_message :: "json \<Rightarrow> jsstring" where
  "envelope_message err =
     asc ''['' @ template (member err (asc ''code'')) @ asc ''] '' @
     template (member err (asc ''message'')) @
     (if truthy (member err (asc ''suggestion''))
      then suggestion_prefix @ template (member err (asc ''suggestion'')) else [])"

text \<open>
  \<open>callFunction\<close> (lines 49-93), given how \<open>fetch\<close> settles: rejected, or fulfilled
  with a response.
\<close>

definition callFunction :: "error + http_response \<Rightarrow> json promise" where
  "callFunction fetched =
     (case fetched of
        Inl e \<Rightarrow> Rejected e
      | Inr response \<Rightarrow>
          if \<not> resp_ok response then
            Rejected (Error (asc ''HTTP '' @ decimal (resp_status response) @ asc '': '' @
                             resp_text response))
          else
            (case resp_json response of
               Inl m \<Rightarrow> Rejected (SyntaxError m)
             | Inr responseData \<Rightarrow>
                 (case (if truthy (Some responseData)
                        then get_prop responseData (asc ''error'') else Inr None) of
                    Inl e \<Rightarrow> Rejected e
                  | Inr err \<Rightarrow>
                      (case err of
                         None \<Rightarrow> Fulfilled responseData
                       | Some ev \<Rightarrow>
                           if truthy (Some ev) then Rejected (Error (envelope_message ev))
                           else Fulfilled responseData))))"

text \<open>\<open>listWebsites\<close> (lines 343-356): \<open>result.files || []\<close>.\<close>

definition listWebsites :: "error + http_response \<Rightarrow> json promise" where
  "listWebsites fetched =
     (case callFunction fetched of
        Fulfilled result \<Rightarrow>
          (case get_prop result (asc ''files'') of
             Inl e \<Rightarrow> Rejected e
           | Inr files \<Rightarrow>
               (case files of
                  None \<Rightarrow> Fulfilled (JArr [])
                | Some v \<Rightarrow> if truthy (Some v) then Fulfilled v else Fulfilled (JArr [])))
      | Rejected e \<Rightarrow> Rejected e
      | Pending \<Rightarrow> Pending)"

section \<open>Notions used in the statements\<close>

text \<open>
  No callback decides the run: none arrives, or the first arrives when the timers have
  fired.
\<close>

definition no_callback_in_time :: "login_env \<Rightarrow> bool" where
  "no_callback_in_time env =
     (case requests env of [] \<Rightarrow> True | (t, r) # rs \<Rightarrow> \<not> t < 300000 + timer_lag env)"

text \<open>The store holds a record that \<open>isTokenExpired\<close> accepts now.\<close>

definition usable_cached :: "TokenData world \<Rightarrow> bool" where
  "usable_cached w =
     (case tokenFile w of
        Content (Json td) \<Rightarrow> \<not> isTokenExpired (clock w) td
      | _ \<Rightarrow> False)"

text \<open>
  The first two steps of \<open>authorize\<close> (the log entries of lines 68 and 97), and its
  last (lines 106-117), once the race has settled.
\<close>

definition browser_step :: "login_env \<Rightarrow> 'v world \<Rightarrow> 'v world" where
  "browser_step env w =
     (if open_fails env then logged BrowserNotOpened (logged LoginStarted w)
      else logged LoginStarted w)"

definition settle_login ::
  "login_env \<Rightarrow> TokenData promise \<Rightarrow> TokenData world \<Rightarrow>
     jsstring promise \<times> TokenData world" where
  "settle_login env p w3 =
     (case p of
        Pending \<Rightarrow> (Pending, w3)
      | Rejected e \<Rightarrow> (Rejected e, logged (LoginFailed (message e)) w3)
      | Fulfilled tokenData \<Rightarrow>
          (case saveToken env tokenData w3 of
             (Fulfilled u, w4) \<Rightarrow> (Fulfilled (accessToken tokenData), logged LoginSucceeded w4)
           | (Rejected e, w4) \<Rightarrow> (Rejected e, logged (LoginFailed (message e)) w4)
           | (Pending, w4) \<Rightarrow> (Pending, w4)))"

definition fresh_listener :: listener where
  "fresh_listener =
     \<lparr>server_open = True, serverPromise = Pending, timeoutPromise = Pending, rendered = []\<rparr>"

text \<open>
  The shapes of a \<open>zipFile\<close> input: a URL, a name that ends in \<open>.zip\<close> whatever the
  case of its letters, and an input that \<open>deployWebsite\<close> reads as a local path (it
  starts with \<open>/\<close> or \<open>.\<close>, or \<open>isBase64\<close> does not take it for inline content).
\<close>

definition is_url :: "jsstring \<Rightarrow> bool" where
  "is_url z = (startsWith z (asc ''http://'') \<or> startsWith z (asc ''https://''))"

definition zip_suffix :: "jsstring \<Rightarrow> bool" where
  "zip_suffix z = endsWith (toLowerCase z) (asc ''.zip'')"

definition read_as_path :: "jsstring \<Rightarrow> bool" where
  "read_as_path z = (startsWith z (asc ''/'') \<or> startsWith z (asc ''.'') \<or> \<not> isBase64 z)"

section \<open>Example data\<close>

text \<open>
  A configuration, a fresh installation at some instant, a stored record that expires
  twenty days later, a login run in which no callback arrives, and the callback that
  answers the state \<open>4fzyo82mvyrk29x7c1qp3\<close>, and a callback with another state.
\<close>

definition example_config :: config where
  "example_config =
     \<lparr>cfg_clientId = asc ''demox-mcp-client'', cfg_authUrl = asc ''https://demox.site/auth''\<rparr>"

definition fresh_install :: "TokenData world" where
  "fresh_install =
     \<lparr>tokenFile = NoFile, currentToken = None, clock = 1700000000000, listening = False,
      pages = [], log = []\<rparr>"

definition stored_token :: TokenData where
  "stored_token =
     \<lparr>accessToken = asc ''tok-old'', refreshToken = asc ''tok-old'',
      expiresAt = 1700000000000 + 20 * 24 * 60 * 60 * 1000, scopes = full_scopes,
      userId = asc ''u1'', clientId = asc ''demox-mcp-client''\<rparr>"

definition logged_in :: "TokenData world" where
  "logged_in = fresh_install\<lparr>tokenFile := Content (Json stored_token)\<rparr>"

definition quiet_login :: login_env where
  "quiet_login =
     \<lparr>random1 = asc ''0.4fzyo82mvyr'', random2 = asc ''0.k29x7c1qp3'', open_fails = False,
      requests = [], timer_lag = 0, write_error = None\<rparr>"

definition good_callback :: request where
  "good_callback =
     \<lparr>access_token = Some (asc ''tok-new''), refresh_token = None, user_id = Some (asc ''u1''),
      state_q = Some (asc ''4fzyo82mvyrk29x7c1qp3''), error_q = None\<rparr>"

definition forged_callback :: request where
  "forged_callback =
     \<lparr>access_token = Some (asc ''tok-evil''), refresh_token = None, user_id = None,
      state_q = Some (asc ''bad''), error_q = None\<rparr>"

text \<open>
  A login run that the good callback answers after five seconds; handlers that fail
  with a given message and handlers that answer with a given result; a tool call
  whose first attempt is refused with status 401 and whose retry answers, and one
  whose retry fails with status 500.
\<close>

definition good_login :: login_env where
  "good_login = quiet_login\<lparr>requests := [(5000, good_callback)]\<rparr>"

definition listing :: tool_result where
  "listing = \<lparr>content_text = asc ''1. my-site'', isError = False\<rparr>"

definition failing_with :: "jsstring \<Rightarrow> handlers" where
  "failing_with msg =
     \<lparr>handleDeploy = (\<lambda>token. Rejected (Error msg)),
      handleList = (\<lambda>token. Rejected (Error msg)),
      handleGet = (\<lambda>token. Rejected (Error msg)),
      handleDelete = (\<lambda>token. Rejected (Error msg))\<rparr>"

definition answering :: "tool_result \<Rightarrow> handlers" where
  "answering r =
     \<lparr>handleDeploy = (\<lambda>token. Fulfilled r),
      handleList = (\<lambda>token. Fulfilled r),
      handleGet = (\<lambda>token. Fulfilled r),
      handleDelete = (\<lambda>token. Fulfilled r)\<rparr>"

definition expired_session :: tool_env where
  "expired_session =
     \<lparr>login1 = good_login, login2 = good_login,
      first_attempt = failing_with (asc ''HTTP 401: Unauthorized''),
      retry_attempt = answering listing\<rparr>"

definition failing_retry :: tool_env where
  "failing_retry = expired_session\<lparr>retry_attempt := failing_with (asc ''HTTP 500: boom'')\<rparr>"

text \<open>
  A project directory with \<open>dist\<close>, \<open>site.zip\<close> and \<open>notes.txt\<close> in it; a backend
  answer of status 200 with a given JSON body, a site, and an error envelope.
\<close>

definition project_fs :: filesystem where
  "project_fs p =
     (if p = asc ''dist'' \<or> p = asc ''./dist''
      then Some \<lparr>isFile = False, isDirectory = True, size = 4096\<rparr>
      else if p = asc ''./site.zip''
      then Some \<lparr>isFile = True, isDirectory = False, size = 20000\<rparr>
      else if p = asc ''./notes.txt''
      then Some \<lparr>isFile = True, isDirectory = False, size = 120\<rparr>
      else None)"

definition ok_response :: "json \<Rightarrow> http_response" where
  "ok_response data = \<lparr>resp_ok = True, resp_status = 200, resp_text = [], resp_json = Inr data\<rparr>"

definition one_site :: json where
  "one_site = JObj [(asc ''websiteId'', JStr (asc ''w1'')), (asc ''fileName'', JStr (asc ''my-site''))]"

definition error_envelope :: json where
  "error_envelope =
     JObj [(asc ''error'',
            JObj [(asc ''code'', JStr (asc ''UNAUTHORIZED'')),
                  (asc ''message'', JStr (asc ''token expired''))])]"

text \<open>A login run that a given callback answers after five seconds; a callback without parameters.\<close>

definition callback_login :: "request \<Rightarrow> login_env" where
  "callback_login req = quiet_login\<lparr>requests := [(5000, req)]\<rparr>"

definition empty_callback :: request where
  "empty_callback =
     \<lparr>access_token = None, refresh_token = None, user_id = None, state_q = None, error_q = None\<rparr>"

section \<open>Properties\<close>

subsection \<open>The world and the log\<close>

lemma logged_simps [simp]:
  "tokenFile (logged ev w) = tokenFile w"
  "currentToken (logged ev w) = currentToken w"
  "clock (logged ev w) = clock w"
  "listening (logged ev w) = listening w"
  "pages (logged ev w) = pages w"
  "log (logged ev w) = log w @ [ev]"
  by (simp_all add: logged_def)

lemma logins_simps [simp]:
  "logins (logged ev w) = (if ev = LoginStarted then Suc (logins w) else logins w)"
  "logins (w\<lparr>tokenFile := f\<rparr>) = logins w"
  "logins (w\<lparr>currentToken := c\<rparr>) = logins w"
  "logins (w\<lparr>clock := n\<rparr>) = logins w"
  "logins (w\<lparr>listening := b\<rparr>) = logins w"
  "logins (w\<lparr>pages := ps\<rparr>) = logins w"
  by (simp_all add: logins_def logged_def)

lemma browser_step_simps [simp]:
  "tokenFile (browser_step env w) = tokenFile w"
  "currentToken (browser_step env w) = currentToken w"
  "clock (browser_step env w) = clock w"
  "pages (browser_step env w) = pages w"
  "logins (browser_step env w) = Suc (logins w)"
  by (simp_all add: browser_step_def)

subsection \<open>The listener and the race\<close>

lemma fresh_listener_simps [simp]:
  "server_open fresh_listener" "serverPromise fresh_listener = Pending"
  "timeoutPromise fresh_listener = Pending" "rendered fresh_listener = []"
  by (simp_all add: fresh_listener_def)

lemma requestHandler_settles:
  assumes "serverPromise l = Pending"
  shows "serverPromise (requestHandler cfg st now req l) \<noteq> Pending"
    and "\<not> server_open (requestHandler cfg st now req l)"
  using assms
  by (auto simp: requestHandler_def Let_def server_close_def respond_def reject_def resolve_def
      split: option.splits prod.splits)

lemma race_settled: "serverPromise l \<noteq> Pending \<Longrightarrow> race l = serverPromise l"
  by (cases "serverPromise l") (simp_all add: race_def)

lemma await_race_request_first:
  assumes "requests env = (t, r) # rs" and "t < 300000 + timer_lag env"
    and "server_open l" and "serverPromise l = Pending"
  shows "await_race (requestHandler cfg st) started (timeline env 300000) l =
           (serverPromise (requestHandler cfg st (started + int t) r l), t,
            requestHandler cfg st (started + int t) r l)"
proof -
  let ?l1 = "requestHandler cfg st (started + int t) r l"
  have settled: "serverPromise ?l1 \<noteq> Pending"
    using assms(4) by (rule requestHandler_settles)
  then have "race ?l1 = serverPromise ?l1" by (rule race_settled)
  with settled assms(1,2,3) show ?thesis
    by (simp add: timeline_def Let_def)
qed

lemma await_race_timeout:
  assumes "no_callback_in_time env" and "serverPromise l = Pending"
  shows "await_race h started (timeline env 300000) l =
           (Rejected (Error login_timeout_msg), 300000 + timer_lag env,
            l\<lparr>server_open := False, serverPromise := Rejected (Error login_timeout_msg)\<rparr>)"
  using assms
  by (cases "requests env")
     (auto simp: no_callback_in_time_def timeline_def Let_def server_close_def reject_def race_def)

subsection \<open>authorize in closed form\<close>

lemma authorize_timeout:
  assumes "no_callback_in_time env"
  shows "authorize cfg env w =
           (Rejected (Error login_timeout_msg),
            logged (LoginFailed login_timeout_msg)
              ((browser_step env w)\<lparr>clock := clock w + int (300000 + timer_lag env),
                 listening := False, pages := pages w\<rparr>))"
  using assms
  by (simp add: authorize_def Let_def await_race_timeout browser_step_def)

lemma authorize_callback:
  assumes "requests env = (t, r) # rs" and "t < 300000 + timer_lag env"
  shows "authorize cfg env w =
           (let l = requestHandler cfg (generateRandomState (random1 env) (random2 env))
                      (clock w + int t) r fresh_listener
            in settle_login env (serverPromise l)
                 ((browser_step env w)\<lparr>clock := clock w + int t, listening := False,
                    pages := pages w @ rendered l\<rparr>))"
proof -
  let ?l = "requestHandler cfg (generateRandomState (random1 env) (random2 env))
              (clock w + int t) r fresh_listener"
  have closed: "\<not> server_open (requestHandler cfg st now r fresh_listener)" for st now
    by (rule requestHandler_settles) (simp add: fresh_listener_def)
  have start: "server_open fresh_listener" "serverPromise fresh_listener = Pending"
    by (simp_all add: fresh_listener_def)
  note run = await_race_request_first[OF assms start]
  show ?thesis
  proof (cases "serverPromise ?l")
    case Pending
    then show ?thesis
      using closed
      by (simp add: authorize_def Let_def run browser_step_def settle_login_def
          flip: fresh_listener_def)
  next
    case (Fulfilled td)
    then show ?thesis
      using closed
      by (simp add: authorize_def Let_def run browser_step_def settle_login_def
          flip: fresh_listener_def)
  next
    case (Rejected e)
    then show ?thesis
      using closed
      by (simp add: authorize_def Let_def run browser_step_def settle_login_def
          flip: fresh_listener_def)
  qed
qed

lemma settle_login_props:
  "p \<noteq> Pending \<Longrightarrow> fst (settle_login env p w) \<noteq> Pending"
  "listening (snd (settle_login env p w)) = listening w"
  "logins (snd (settle_login env p w)) = logins w"
  "clock (snd (settle_login env p w)) = clock w"
  "pages (snd (settle_login env p w)) = pages w"
  by (auto simp: settle_login_def saveToken_def split: promise.splits option.splits)

lemma authorize_cases:
  "no_callback_in_time env \<or>
   (\<exists>t r rs. requests env = (t, r) # rs \<and> t < 300000 + timer_lag env)"
  by (cases "requests env") (auto simp: no_callback_in_time_def)

lemma authorize_logins: "logins (snd (authorize cfg env w)) = Suc (logins w)"
  using authorize_cases[of env]
  by (auto simp: authorize_timeout authorize_callback Let_def settle_login_props)

lemma authorize_settles: "fst (authorize cfg env w) \<noteq> Pending"
  using authorize_cases[of env]
  by (auto simp: authorize_timeout authorize_callback Let_def settle_login_props
      requestHandler_settles fresh_listener_def)

lemma authorize_closes: "\<not> listening (snd (authorize cfg env w))"
  using authorize_cases[of env]
  by (auto simp: authorize_timeout authorize_callback Let_def settle_login_props)

text \<open>
  How a run ends when a callback decides it: with the authorization error for a
  callback with an error parameter, with the state-mismatch error, with the access
  token (or with the error of the write), or with the missing-parameters error.
\<close>

lemma authorize_outcome:
  assumes "requests env = (t, req) # rs" and "t < 300000 + timer_lag env"
  shows "fst (authorize cfg env w) =
           (case truthy_str (error_q req) of
              Some err \<Rightarrow> Rejected (Error (oauth_failed_prefix @ err))
            | None \<Rightarrow>
                (case (truthy_str (access_token req), truthy_str (state_q req)) of
                   (Some token, Some st) \<Rightarrow>
                     if st \<noteq> generateRandomState (random1 env) (random2 env)
                     then Rejected (Error state_mismatch_msg)
                     else (case write_error env of
                             None \<Rightarrow> Fulfilled token
                           | Some e \<Rightarrow> Rejected e)
                 | _ \<Rightarrow> Rejected (Error missing_params_msg)))"
proof -
  let ?l = "requestHandler cfg (generateRandomState (random1 env) (random2 env))
              (clock w + int t) req fresh_listener"
  have run: "fst (authorize cfg env w) = fst (settle_login env (serverPromise ?l) w')"
    if "w' = (browser_step env w)\<lparr>clock := clock w + int t, listening := False,
                    pages := pages w @ rendered ?l\<rparr>" for w'
    using that by (simp add: authorize_callback[OF assms] Let_def)
  show ?thesis
    unfolding run[OF refl]
    by (auto simp: requestHandler_def Let_def server_close_def respond_def reject_def resolve_def
        settle_login_def saveToken_def split: option.splits)
qed


lemma example_state:
  "generateRandomState (asc ''0.4fzyo82mvyr'') (asc ''0.k29x7c1qp3'') = asc ''4fzyo82mvyrk29x7c1qp3''"
  by (simp add: generateRandomState_def substring_def asc_def)

lemma callback_login_outcome:
  "fst (authorize cfg (callback_login req) w) =
           (case truthy_str (error_q req) of
              Some err \<Rightarrow> Rejected (Error (oauth_failed_prefix @ err))
            | None \<Rightarrow>
                (case (truthy_str (access_token req), truthy_str (state_q req)) of
                   (Some token, Some st) \<Rightarrow>
                     if st \<noteq> asc ''4fzyo82mvyrk29x7c1qp3''
                     then Rejected (Error state_mismatch_msg)
                     else Fulfilled token
                 | _ \<Rightarrow> Rejected (Error missing_params_msg)))"
proof -
  have a: "requests (callback_login req) = (5000, req) # []"
    and b: "(5000::nat) < 300000 + timer_lag (callback_login req)"
    by (simp_all add: callback_login_def)
  have c: "generateRandomState (random1 (callback_login req)) (random2 (callback_login req))
             = asc ''4fzyo82mvyrk29x7c1qp3''"
    and d: "write_error (callback_login req) = None"
    by (simp_all add: callback_login_def quiet_login_def example_state)
  show ?thesis
    unfolding authorize_outcome[OF a b] c d option.case by (rule refl)
qed

subsection \<open>The login flow\<close>

text \<open>
  Claim C5. The listener bound to port 39897 is closed on every exit path of an
  \<open>authorize()\<close> run: whatever the outside world does (a successful callback, a
  callback with an error parameter, a state mismatch, a malformed callback, or no
  callback at all), the run settles and the port is free when it does. When no callback
  arrives in time, the run is rejected with the error of the login timeout, and not
  before 300 000 ms have passed.
\<close>

theorem listener_closed_on_every_exit:
  "fst (authorize cfg env w) \<noteq> Pending \<and>
   \<not> listening (snd (authorize cfg env w)) \<and>
   (no_callback_in_time env \<longrightarrow>
      fst (authorize cfg env w) = Rejected (Error login_timeout_msg) \<and>
      clock (snd (authorize cfg env w)) = clock w + 300000 + int (timer_lag env) \<and>
      clock (snd (authorize cfg env w)) \<ge> clock w + 300000)"
  by (simp add: authorize_settles authorize_closes authorize_timeout)

theorem listener_closed_on_every_exit_witness:
  "no_callback_in_time quiet_login \<and>
   fst (authorize example_config quiet_login fresh_install) = Rejected (Error login_timeout_msg) \<and>
   \<not> listening (snd (authorize example_config quiet_login fresh_install)) \<and>
   clock (snd (authorize example_config quiet_login fresh_install)) = 1700000300000 \<and>
   fst (authorize example_config (callback_login good_callback) fresh_install)
     = Fulfilled (asc ''tok-new'') \<and>
   \<not> listening (snd (authorize example_config (callback_login good_callback) fresh_install)) \<and>
   fst (authorize example_config
          (callback_login (empty_callback\<lparr>error_q := Some (asc ''access_denied'')\<rparr>)) fresh_install)
     = Rejected (Error (oauth_failed_prefix @ asc ''access_denied'')) \<and>
   \<not> listening (snd (authorize example_config
          (callback_login (empty_callback\<lparr>error_q := Some (asc ''access_denied'')\<rparr>))
          fresh_install)) \<and>
   fst (authorize example_config (callback_login forged_callback) fresh_install)
     = Rejected (Error state_mismatch_msg) \<and>
   \<not> listening (snd (authorize example_config (callback_login forged_callback) fresh_install)) \<and>
   fst (authorize example_config (callback_login empty_callback) fresh_install)
     = Rejected (Error missing_params_msg) \<and>
   \<not> listening (snd (authorize example_config (callback_login empty_callback) fresh_install))"
proof -
  note closed = listener_closed_on_every_exit[THEN conjunct2, THEN conjunct1]
  have q: "no_callback_in_time quiet_login"
    by (simp add: no_callback_in_time_def quiet_login_def)
  from listener_closed_on_every_exit[of example_config quiet_login fresh_install] q
  have timeout: "fst (authorize example_config quiet_login fresh_install)
                   = Rejected (Error login_timeout_msg) \<and>
                 clock (snd (authorize example_config quiet_login fresh_install)) = 1700000300000"
    by (simp add: quiet_login_def fresh_install_def)
  have good: "fst (authorize example_config (callback_login good_callback) fresh_install)
                = Fulfilled (asc ''tok-new'')"
    by (simp add: callback_login_outcome good_callback_def truthy_str_def asc_def)
  have denied: "fst (authorize example_config
          (callback_login (empty_callback\<lparr>error_q := Some (asc ''access_denied'')\<rparr>)) fresh_install)
     = Rejected (Error (oauth_failed_prefix @ asc ''access_denied''))"
    by (simp add: callback_login_outcome empty_callback_def truthy_str_def asc_def)
  have forged: "fst (authorize example_config (callback_login forged_callback) fresh_install)
     = Rejected (Error state_mismatch_msg)"
    by (simp add: callback_login_outcome forged_callback_def truthy_str_def asc_def)
  have malformed: "fst (authorize example_config (callback_login empty_callback) fresh_install)
     = Rejected (Error missing_params_msg)"
    by (simp add: callback_login_outcome empty_callback_def truthy_str_def)
  from q timeout good denied forged malformed closed show ?thesis
    by simp
qed

lemma requestHandler_not_resolved:
  assumes "state_q req \<noteq> Some expectedState" and "serverPromise l = Pending"
  shows "\<exists>e. serverPromise (requestHandler cfg expectedState now req l) = Rejected e"
  using assms
  by (auto simp: requestHandler_def Let_def server_close_def respond_def reject_def resolve_def
      truthy_str_def split: option.splits if_splits)

lemma requestHandler_mismatch:
  assumes "truthy_str (error_q req) = None" and "truthy_str (access_token req) = Some token"
    and "truthy_str (state_q req) = Some st" and "st \<noteq> expectedState"
    and "serverPromise l = Pending"
  shows "serverPromise (requestHandler cfg expectedState now req l)
           = Rejected (Error state_mismatch_msg)"
    and "rendered (requestHandler cfg expectedState now req l)
           = rendered l @ [\<lparr>status = 400, body = PlainText state_mismatch_body\<rparr>]"
  using assms
  by (simp_all add: requestHandler_def Let_def server_close_def respond_def reject_def)

text \<open>
  Claim C2, as amended. When the callback the listener handles carries a state that is
  not the state generated for this \<open>authorize()\<close> attempt, the flow fails and leaves
  the stored credential as it was. When that callback also has an access token and
  no error parameter, the flow fails with the state-mismatch error, and the page
  written to the browser is the fixed answer of status 400, which shows neither
  state.
\<close>

theorem state_mismatch_never_persists:
  assumes "requests env = (t, req) # rs" and "t < 300000 + timer_lag env"
    and "state_q req \<noteq> Some (generateRandomState (random1 env) (random2 env))"
  shows "tokenFile (snd (authorize cfg env w)) = tokenFile w \<and>
         currentToken (snd (authorize cfg env w)) = currentToken w \<and>
         (\<exists>e. fst (authorize cfg env w) = Rejected e) \<and>
         (truthy_str (error_q req) = None \<and> truthy_str (access_token req) \<noteq> None \<and>
          truthy_str (state_q req) \<noteq> None \<longrightarrow>
            fst (authorize cfg env w) = Rejected (Error state_mismatch_msg) \<and>
            pages (snd (authorize cfg env w))
              = pages w @ [\<lparr>status = 400, body = PlainText state_mismatch_body\<rparr>])"
proof -
  let ?st = "generateRandomState (random1 env) (random2 env)"
  let ?l = "requestHandler cfg ?st (clock w + int t) req fresh_listener"
  have pend: "serverPromise fresh_listener = Pending"
    by (simp add: fresh_listener_def)
  obtain e where rej: "serverPromise ?l = Rejected e"
    using requestHandler_not_resolved[OF assms(3) pend] by blast
  have general: "tokenFile (snd (authorize cfg env w)) = tokenFile w \<and>
         currentToken (snd (authorize cfg env w)) = currentToken w \<and>
         (\<exists>e. fst (authorize cfg env w) = Rejected e)"
    using rej by (simp add: authorize_callback[OF assms(1,2)] Let_def settle_login_def)
  have specific: "fst (authorize cfg env w) = Rejected (Error state_mismatch_msg) \<and>
            pages (snd (authorize cfg env w))
              = pages w @ [\<lparr>status = 400, body = PlainText state_mismatch_body\<rparr>]"
    if "truthy_str (error_q req) = None" "truthy_str (access_token req) \<noteq> None"
      "truthy_str (state_q req) \<noteq> None"
  proof -
    from that obtain token st where ts: "truthy_str (access_token req) = Some token"
      "truthy_str (state_q req) = Some st" by auto
    then have "state_q req = Some st"
      by (auto simp: truthy_str_def split: option.splits if_splits)
    with assms(3) have ne: "st \<noteq> ?st" by simp
    have "serverPromise ?l = Rejected (Error state_mismatch_msg)"
      and "rendered ?l = [\<lparr>status = 400, body = PlainText state_mismatch_body\<rparr>]"
      by (simp_all add: requestHandler_mismatch[OF that(1) ts ne pend])
    then show ?thesis
      by (simp add: authorize_callback[OF assms(1,2)] Let_def settle_login_def)
  qed
  from general specific show ?thesis by blast
qed

theorem state_mismatch_never_persists_witness:
  "tokenFile (snd (authorize example_config (quiet_login\<lparr>requests := [(5000, forged_callback)]\<rparr>)
                     logged_in)) = Content (Json stored_token) \<and>
   fst (authorize example_config (quiet_login\<lparr>requests := [(5000, forged_callback)]\<rparr>) logged_in)
     = Rejected (Error state_mismatch_msg) \<and>
   pages (snd (authorize example_config (quiet_login\<lparr>requests := [(5000, forged_callback)]\<rparr>)
                 logged_in))
     = [\<lparr>status = 400, body = PlainText state_mismatch_body\<rparr>]"
proof -
  let ?env = "quiet_login\<lparr>requests := [(5000, forged_callback)]\<rparr>"
  have a: "requests ?env = (5000, forged_callback) # []" by simp
  have b: "(5000::nat) < 300000 + timer_lag ?env" by simp
  have c: "state_q forged_callback \<noteq> Some (generateRandomState (random1 ?env) (random2 ?env))"
    by (simp add: quiet_login_def example_state forged_callback_def) (simp add: asc_def)
  have d: "truthy_str (error_q forged_callback) = None \<and>
           truthy_str (access_token forged_callback) \<noteq> None \<and>
           truthy_str (state_q forged_callback) \<noteq> None"
    by (simp add: forged_callback_def truthy_str_def asc_def)
  from state_mismatch_never_persists[OF a b c, of example_config logged_in] d
  show ?thesis
    by (simp add: logged_in_def fresh_install_def)
qed

text \<open>
  The claim as stated fails: a callback that carries an access token, a wrong state
  and an error parameter is answered as a cancelled login, with the error parameter
  on the page, and the flow fails with the authorization error.
\<close>

theorem state_mismatch_error_param_counterexample:
  "fst (authorize example_config
          (quiet_login\<lparr>requests := [(5000, forged_callback\<lparr>error_q := Some (asc ''denied'')\<rparr>)]\<rparr>)
          fresh_install)
     = Rejected (Error (oauth_failed_prefix @ asc ''denied'')) \<and>
   Error (oauth_failed_prefix @ asc ''denied'') \<noteq> Error state_mismatch_msg \<and>
   pages (snd (authorize example_config
          (quiet_login\<lparr>requests := [(5000, forged_callback\<lparr>error_q := Some (asc ''denied'')\<rparr>)]\<rparr>)
          fresh_install))
     = [\<lparr>status = 200, body = CancelledPage (asc ''denied'')\<rparr>]"
proof -
  let ?req = "forged_callback\<lparr>error_q := Some (asc ''denied'')\<rparr>"
  let ?env = "quiet_login\<lparr>requests := [(5000, ?req)]\<rparr>"
  have a: "requests ?env = (5000, ?req) # []" by simp
  have b: "(5000::nat) < 300000 + timer_lag ?env" by simp
  have h: "requestHandler example_config st now ?req fresh_listener =
             fresh_listener\<lparr>server_open := False,
               rendered := [\<lparr>status = 200, body = CancelledPage (asc ''denied'')\<rparr>],
               serverPromise := Rejected (Error (oauth_failed_prefix @ asc ''denied''))\<rparr>" for st now
    by (simp add: requestHandler_def truthy_str_def asc_def Let_def server_close_def respond_def
        reject_def fresh_listener_def)
  have ne: "Error (oauth_failed_prefix @ asc ''denied'') \<noteq> Error state_mismatch_msg"
    by (simp add: oauth_failed_prefix_def state_mismatch_msg_def asc_def)
  show ?thesis
    using ne
    by (simp add: authorize_callback[OF a b] h Let_def settle_login_def fresh_install_def)
qed

text \<open>
  Claim C7. A callback is successful exactly when it has no error parameter, an access
  token, and the expected state (a parameter is present when its value is a non-empty
  string: this is what the handler tests). The record made from it has the callback's
  access token; its refresh token, or the access token when there is none; the expiry
  thirty days after now; the four scopes; the callback's user id, or the empty string;
  and the configured client id.
\<close>

theorem token_record_of_successful_callback:
  assumes "serverPromise l = Pending"
  shows "serverPromise (requestHandler cfg expectedState now req l) = Fulfilled td \<longleftrightarrow>
         truthy_str (error_q req) = None \<and>
         truthy_str (state_q req) = Some expectedState \<and>
         (\<exists>token. truthy_str (access_token req) = Some token \<and>
            td = \<lparr>accessToken = token,
                  refreshToken = (case truthy_str (refresh_token req) of
                                    Some r \<Rightarrow> r | None \<Rightarrow> token),
                  expiresAt = now + 30 * 24 * 60 * 60 * 1000,
                  scopes = [asc ''website:deploy'', asc ''website:list'',
                            asc ''website:delete'', asc ''website:update''],
                  userId = (case truthy_str (user_id req) of Some u \<Rightarrow> u | None \<Rightarrow> []),
                  clientId = cfg_clientId cfg\<rparr>)"
  using assms
  by (auto simp: requestHandler_def Let_def server_close_def respond_def reject_def resolve_def
      full_scopes_def split: option.splits)

theorem token_record_of_successful_callback_witness:
  "serverPromise fresh_listener = Pending \<and>
   serverPromise (requestHandler example_config (asc ''4fzyo82mvyrk29x7c1qp3'') 1700000005000
                    good_callback fresh_listener)
     = Fulfilled \<lparr>accessToken = asc ''tok-new'', refreshToken = asc ''tok-new'',
                  expiresAt = 1702592005000,
                  scopes = [asc ''website:deploy'', asc ''website:list'',
                            asc ''website:delete'', asc ''website:update''],
                  userId = asc ''u1'', clientId = asc ''demox-mcp-client''\<rparr>"
proof -
  have p: "serverPromise fresh_listener = Pending"
    by (simp add: fresh_listener_def)
  have rhs: "truthy_str (error_q good_callback) = None \<and>
         truthy_str (state_q good_callback) = Some (asc ''4fzyo82mvyrk29x7c1qp3'') \<and>
         (\<exists>token. truthy_str (access_token good_callback) = Some token \<and>
            \<lparr>accessToken = asc ''tok-new'', refreshToken = asc ''tok-new'',
                  expiresAt = 1702592005000,
                  scopes = [asc ''website:deploy'', asc ''website:list'',
                            asc ''website:delete'', asc ''website:update''],
                  userId = asc ''u1'', clientId = asc ''demox-mcp-client''\<rparr>
             = \<lparr>accessToken = token,
                  refreshToken = (case truthy_str (refresh_token good_callback) of
                                    Some r \<Rightarrow> r | None \<Rightarrow> token),
                  expiresAt = 1700000005000 + 30 * 24 * 60 * 60 * 1000,
                  scopes = [asc ''website:deploy'', asc ''website:list'',
                            asc ''website:delete'', asc ''website:update''],
                  userId = (case truthy_str (user_id good_callback) of Some u \<Rightarrow> u | None \<Rightarrow> []),
                  clientId = cfg_clientId example_config\<rparr>)"
    by (simp add: good_callback_def truthy_str_def example_config_def asc_def)
  from token_record_of_successful_callback[OF p, of example_config
      "asc ''4fzyo82mvyrk29x7c1qp3''" 1700000005000 good_callback] rhs p
  show ?thesis by simp
qed

subsection \<open>The credential store\<close>

text \<open>
  What \<open>loadToken\<close> does with a content that parses, at the type of JSON values: the
  value is handed on unchecked, whatever its shape (here a number), and a file that
  holds \<open>null\<close> gives "absent" with the entry of a successful load in the log and no
  error logged.
\<close>

lemma loadToken_hands_on_any_value:
  "loadToken (w\<lparr>tokenFile := Content (Json (JNum 42))\<rparr>)
     = (Fulfilled (Some (JNum 42)), logged TokenLoaded (w\<lparr>tokenFile := Content (Json (JNum 42))\<rparr>))"
  "loadToken (w\<lparr>tokenFile := Content JsonNull\<rparr>)
     = (Fulfilled None, logged TokenLoaded (w\<lparr>tokenFile := Content JsonNull\<rparr>))"
  by (simp_all add: loadToken_def loadToken_try_def existsSync_def readFile_def JSON_parse_def)

text \<open>
  Claim C6, as amended. \<open>load()\<close> returns the record when the file exists and parses
  as JSON of the record's shape (the last case, where \<open>'v\<close> is the type of records),
  and "absent", not an error, when the file does not exist; when the file cannot be
  read or cannot be parsed, the error is logged and "absent" is returned as well: in
  no case does \<open>load()\<close> fail. The equation holds at every type of values, so that it
  also says what is returned for a content that parses and has another shape, of
  which the claim says nothing.
\<close>

theorem loadToken_never_rejects:
  "loadToken w =
     (case tokenFile w of
        NoFile \<Rightarrow> (Fulfilled None, w)
      | Unreadable m \<Rightarrow> (Fulfilled None, logged (LoadTokenFailed (SystemError m)) w)
      | Content (Malformed m) \<Rightarrow> (Fulfilled None, logged (LoadTokenFailed (SyntaxError m)) w)
      | Content JsonNull \<Rightarrow> (Fulfilled None, logged TokenLoaded w)
      | Content (Json tokenData) \<Rightarrow> (Fulfilled (Some tokenData), logged TokenLoaded w))"
  by (simp add: loadToken_def loadToken_try_def existsSync_def readFile_def JSON_parse_def
      split: token_file.splits file_content.split)

text \<open>
  The claim as stated fails: an unreadable file and an unparsable one are both
  answered with "absent", not with an error.
\<close>

theorem loadToken_unreadable_counterexample:
  "fst (loadToken (fresh_install\<lparr>tokenFile := Unreadable (asc ''EACCES'')\<rparr>)) = Fulfilled None \<and>
   fst (loadToken (fresh_install\<lparr>tokenFile := Content (Malformed (asc ''Unexpected token''))\<rparr>))
     = Fulfilled None"
  by (simp add: loadToken_def loadToken_try_def existsSync_def readFile_def JSON_parse_def)

subsection \<open>ensureAuthenticated\<close>

lemma loadToken_stored:
  "tokenFile w = Content (Json td) \<Longrightarrow> loadToken w = (Fulfilled (Some td), logged TokenLoaded w)"
  by (simp add: loadToken_def loadToken_try_def existsSync_def readFile_def JSON_parse_def)

lemma loadToken_absent:
  "\<forall>td. tokenFile w \<noteq> Content (Json td) \<Longrightarrow> fst (loadToken w) = Fulfilled None"
  by (auto simp: loadToken_def loadToken_try_def existsSync_def readFile_def JSON_parse_def
      split: token_file.splits file_content.splits)

lemma loadToken_logins: "logins (snd (loadToken w)) = logins w"
  by (auto simp: loadToken_def loadToken_try_def existsSync_def readFile_def JSON_parse_def
      split: token_file.splits file_content.splits)

lemma ensureAuthenticated_fresh:
  assumes "tokenFile w = Content (Json td)" and "\<not> isTokenExpired (clock w) td"
  shows "fst (ensureAuthenticated cfg env w) = Fulfilled (accessToken td)"
    and "logins (snd (ensureAuthenticated cfg env w)) = logins w"
    and "tokenFile (snd (ensureAuthenticated cfg env w)) = tokenFile w"
    and "clock (snd (ensureAuthenticated cfg env w)) = clock w"
  using assms
  by (simp_all add: ensureAuthenticated_def loadToken_stored Let_def)

lemma ensureAuthenticated_expired:
  assumes "tokenFile w = Content (Json td)" and "isTokenExpired (clock w) td"
  shows "ensureAuthenticated cfg env w
           = authorize cfg env (logged LoginRequired (logged TokenLoaded w))"
  using assms
  by (simp add: ensureAuthenticated_def loadToken_stored)

lemma ensureAuthenticated_absent:
  assumes "\<forall>td. tokenFile w \<noteq> Content (Json td)"
  shows "ensureAuthenticated cfg env w
           = authorize cfg env (logged LoginRequired (snd (loadToken w)))"
proof -
  obtain w1 where "loadToken w = (Fulfilled None, w1)"
    using loadToken_absent[OF assms] by (cases "loadToken w") simp
  then show ?thesis
    by (simp add: ensureAuthenticated_def)
qed

text \<open>
  Claim C1. For every record the store holds, \<open>ensureAuthenticated\<close> returns the cached
  access token without a run of \<open>authorize()\<close> if and only if \<open>expiresAt\<close> minus the
  current time is more than five minutes. When it is five minutes or less, and when
  the store yields no record, \<open>ensureAuthenticated\<close> is a run of \<open>authorize()\<close>.
\<close>

theorem ensureAuthenticated_reuses_iff_fresh:
  "(\<forall>td. tokenFile w = Content (Json td) \<longrightarrow>
      ((fst (ensureAuthenticated cfg env w) = Fulfilled (accessToken td) \<and>
        logins (snd (ensureAuthenticated cfg env w)) = logins w)
         \<longleftrightarrow> expiresAt td - clock w > 5 * 60 * 1000) \<and>
      (expiresAt td - clock w \<le> 5 * 60 * 1000 \<longrightarrow>
         ensureAuthenticated cfg env w
           = authorize cfg env (logged LoginRequired (logged TokenLoaded w)) \<and>
         logins (snd (ensureAuthenticated cfg env w)) = Suc (logins w))) \<and>
   ((\<forall>td. tokenFile w \<noteq> Content (Json td)) \<longrightarrow>
      ensureAuthenticated cfg env w
        = authorize cfg env (logged LoginRequired (snd (loadToken w))) \<and>
      logins (snd (ensureAuthenticated cfg env w)) = Suc (logins w))"
proof (intro conjI allI impI)
  fix td
  assume stored: "tokenFile w = Content (Json td)"
  show "(fst (ensureAuthenticated cfg env w) = Fulfilled (accessToken td) \<and>
         logins (snd (ensureAuthenticated cfg env w)) = logins w)
          \<longleftrightarrow> expiresAt td - clock w > 5 * 60 * 1000"
  proof (cases "isTokenExpired (clock w) td")
    case True
    then have "logins (snd (ensureAuthenticated cfg env w)) = Suc (logins w)"
      by (simp add: ensureAuthenticated_expired[OF stored] authorize_logins)
    with True show ?thesis
      by (simp add: isTokenExpired_def)
  next
    case False
    with ensureAuthenticated_fresh[OF stored False, of cfg env] show ?thesis
      by (simp add: isTokenExpired_def)
  qed
next
  fix td
  assume stored: "tokenFile w = Content (Json td)"
    and late: "expiresAt td - clock w \<le> 5 * 60 * 1000"
  then have expired: "isTokenExpired (clock w) td"
    by (simp add: isTokenExpired_def)
  show "ensureAuthenticated cfg env w
          = authorize cfg env (logged LoginRequired (logged TokenLoaded w))"
    by (rule ensureAuthenticated_expired[OF stored expired])
  then show "logins (snd (ensureAuthenticated cfg env w)) = Suc (logins w)"
    by (simp add: authorize_logins)
next
  assume none: "\<forall>td. tokenFile w \<noteq> Content (Json td)"
  show "ensureAuthenticated cfg env w
          = authorize cfg env (logged LoginRequired (snd (loadToken w)))"
    by (rule ensureAuthenticated_absent[OF none])
  then show "logins (snd (ensureAuthenticated cfg env w)) = Suc (logins w)"
    by (simp add: authorize_logins loadToken_logins)
qed

theorem ensureAuthenticated_reuses_iff_fresh_witness:
  "tokenFile logged_in = Content (Json stored_token) \<and>
   expiresAt stored_token - clock logged_in > 5 * 60 * 1000 \<and>
   fst (ensureAuthenticated example_config quiet_login logged_in) = Fulfilled (asc ''tok-old'') \<and>
   logins (snd (ensureAuthenticated example_config quiet_login logged_in)) = 0 \<and>
   expiresAt stored_token - clock (logged_in\<lparr>clock := 1701727800000\<rparr>) \<le> 5 * 60 * 1000 \<and>
   logins (snd (ensureAuthenticated example_config quiet_login
                  (logged_in\<lparr>clock := 1701727800000\<rparr>))) = 1 \<and>
   logins (snd (ensureAuthenticated example_config quiet_login fresh_install)) = 1"
proof -
  let ?late = "logged_in\<lparr>clock := 1701727800000\<rparr>"
  have a: "tokenFile logged_in = Content (Json stored_token)"
    and b: "tokenFile ?late = Content (Json stored_token)"
    and c: "\<forall>td. tokenFile fresh_install \<noteq> Content (Json td)"
    by (simp_all add: logged_in_def fresh_install_def)
  have z: "logins logged_in = 0" "logins ?late = 0" "logins fresh_install = 0"
    by (simp_all add: logins_def logged_in_def fresh_install_def)
  have fresh: "expiresAt stored_token - clock logged_in > 5 * 60 * 1000"
    and late: "expiresAt stored_token - clock ?late \<le> 5 * 60 * 1000"
    by (simp_all add: stored_token_def logged_in_def fresh_install_def)
  have tok: "accessToken stored_token = asc ''tok-old''"
    by (simp add: stored_token_def)
  note t1 = ensureAuthenticated_reuses_iff_fresh[of logged_in example_config quiet_login]
  note t2 = ensureAuthenticated_reuses_iff_fresh[of ?late example_config quiet_login]
  note t3 = ensureAuthenticated_reuses_iff_fresh[of fresh_install example_config quiet_login]
  from t1 a fresh have
    "fst (ensureAuthenticated example_config quiet_login logged_in)
       = Fulfilled (accessToken stored_token) \<and>
     logins (snd (ensureAuthenticated example_config quiet_login logged_in)) = logins logged_in"
    by blast
  moreover from t2 b late have
    "logins (snd (ensureAuthenticated example_config quiet_login ?late)) = Suc (logins ?late)"
    by blast
  moreover from t3 c have
    "logins (snd (ensureAuthenticated example_config quiet_login fresh_install))
       = Suc (logins fresh_install)"
    by blast
  ultimately show ?thesis
    using a fresh late z tok by simp
qed

subsection \<open>The dispatcher\<close>

lemma ensureAuthenticated_logins:
  "logins (snd (ensureAuthenticated cfg env w)) = logins w + (if usable_cached w then 0 else 1)"
proof (cases "\<exists>td. tokenFile w = Content (Json td)")
  case True
  then obtain td where stored: "tokenFile w = Content (Json td)" by blast
  show ?thesis
  proof (cases "isTokenExpired (clock w) td")
    case True
    with stored show ?thesis
      by (simp add: ensureAuthenticated_expired[OF stored True] authorize_logins usable_cached_def)
  next
    case False
    with stored ensureAuthenticated_fresh(2)[OF stored False, of cfg env] show ?thesis
      by (simp add: usable_cached_def)
  qed
next
  case False
  then have none: "\<forall>td. tokenFile w \<noteq> Content (Json td)" by blast
  then have "\<not> usable_cached w"
    by (auto simp: usable_cached_def split: token_file.splits file_content.splits)
  then show ?thesis
    by (simp add: ensureAuthenticated_absent[OF none] authorize_logins loadToken_logins)
qed

lemma callToolRequest_retry:
  assumes "ensureAuthenticated cfg (login1 env) w = (Fulfilled tok, w1)"
    and "routeTool (first_attempt env) name tok = Rejected e"
    and "isAuthError (message e)"
    and "authorize cfg (login2 env)
           (logged AuthErrorDetected (logged (ToolCallFailed name (message e)) w1))
         = (Fulfilled tok2, w3)"
  shows "callToolRequest cfg env name w =
           (case routeTool (retry_attempt env) name tok2 of
              Fulfilled r \<Rightarrow> (Fulfilled r, logged RetryingToolCall w3)
            | Pending \<Rightarrow> (Pending, logged RetryingToolCall w3)
            | Rejected loginError \<Rightarrow>
                (Fulfilled (autoLoginFailed (message loginError)),
                 logged (AutoLoginFailed (message loginError)) (logged RetryingToolCall w3)))"
  using assms by (simp add: callToolRequest_def Let_def)

lemma callToolRequest_other_error:
  assumes "ensureAuthenticated cfg (login1 env) w = (Fulfilled tok, w1)"
    and "routeTool (first_attempt env) name tok = Rejected e"
    and "\<not> isAuthError (message e)"
  shows "callToolRequest cfg env name w =
           (Fulfilled (errorResult (message e)), logged (ToolCallFailed name (message e)) w1)"
  using assms by (simp add: callToolRequest_def Let_def)

lemma authorize_success:
  assumes "requests env = (t, req) # rs" and "t < 300000 + timer_lag env"
    and "truthy_str (error_q req) = None"
    and "truthy_str (access_token req) = Some token"
    and "truthy_str (state_q req) = Some (generateRandomState (random1 env) (random2 env))"
    and "write_error env = None"
  shows "fst (authorize cfg env w) = Fulfilled token"
proof -
  let ?l = "requestHandler cfg (generateRandomState (random1 env) (random2 env))
              (clock w + int t) req fresh_listener"
  have "\<exists>td. serverPromise ?l = Fulfilled td \<and> accessToken td = token"
    using assms(3,4,5)
    by (simp add: requestHandler_def Let_def server_close_def respond_def resolve_def)
  then obtain td where "serverPromise ?l = Fulfilled td" "accessToken td = token" by blast
  then show ?thesis
    using assms(6)
    by (simp add: authorize_callback[OF assms(1,2)] Let_def settle_login_def saveToken_def)
qed

lemma good_login_succeeds: "fst (authorize example_config good_login w) = Fulfilled (asc ''tok-new'')"
proof -
  have a: "requests good_login = (5000, good_callback) # []"
    by (simp add: good_login_def)
  have b: "(5000::nat) < 300000 + timer_lag good_login"
    by simp
  have c: "truthy_str (error_q good_callback) = None"
    and d: "truthy_str (access_token good_callback) = Some (asc ''tok-new'')"
    by (simp_all add: good_callback_def truthy_str_def asc_def)
  have e: "truthy_str (state_q good_callback)
             = Some (generateRandomState (random1 good_login) (random2 good_login))"
    by (simp add: good_login_def quiet_login_def example_state good_callback_def truthy_str_def)
       (simp add: asc_def)
  have f: "write_error good_login = None"
    by (simp add: good_login_def quiet_login_def)
  show ?thesis
    by (rule authorize_success[OF a b c d e f])
qed

lemma unauthorized_is_auth_error: "isAuthError (asc ''HTTP 401: Unauthorized'')"
  by (simp add: isAuthError_def asc_def startsWith_def)

lemma server_error_is_no_auth_error: "\<not> isAuthError (asc ''HTTP 500: boom'')"
  by (simp add: isAuthError_def asc_def startsWith_def)

lemma route_list:
  "routeTool h (asc ''list_websites'') token = handleList h token"
  by (simp add: routeTool_def asc_def)

lemma usable_logged_in: "usable_cached logged_in"
  by (simp add: usable_cached_def logged_in_def fresh_install_def stored_token_def
      isTokenExpired_def)

lemma ensureAuthenticated_logged_in:
  "fst (ensureAuthenticated cfg env logged_in) = Fulfilled (asc ''tok-old'')"
proof -
  have a: "tokenFile logged_in = Content (Json stored_token)"
    by (simp add: logged_in_def)
  have b: "\<not> isTokenExpired (clock logged_in) stored_token"
    by (simp add: logged_in_def fresh_install_def stored_token_def isTokenExpired_def)
  from ensureAuthenticated_fresh(1)[OF a b] show ?thesis
    by (simp add: stored_token_def)
qed

lemma settle_login_fulfilled_logs:
  "fst (settle_login env p w) = Fulfilled tok \<Longrightarrow>
   LoginSucceeded \<in> set (log (snd (settle_login env p w)))"
  by (auto simp: settle_login_def saveToken_def split: promise.splits option.splits)

lemma authorize_fulfilled_logs:
  assumes "fst (authorize cfg env w) = Fulfilled tok"
  shows "LoginSucceeded \<in> set (log (snd (authorize cfg env w)))"
  using authorize_cases[of env] assms
  by (auto simp: authorize_timeout authorize_callback Let_def settle_login_fulfilled_logs)


text \<open>
  Claim C3, as amended. Take a tool call in which \<open>ensureAuthenticated\<close> yields a token
  and the first attempt fails. If the failure is an auth-marker error, the login of
  the retry path succeeds and the retry succeeds, the dispatcher returns the retry's
  value, and \<open>authorize()\<close> has run once because of the failure: once in the whole call
  when a cached credential was reused, twice when \<open>ensureAuthenticated\<close> had to log in
  first. If the failure is not an auth-marker error, the dispatcher returns it as an
  error result with its message, and \<open>authorize()\<close> has not run because of it: not at
  all when a cached credential was reused, once otherwise.
\<close>

theorem retry_once_after_auth_error:
  assumes "ensureAuthenticated cfg (login1 env) w = (Fulfilled tok, w1)"
    and "routeTool (first_attempt env) name tok = Rejected e"
  shows "(isAuthError (message e) \<and>
          authorize cfg (login2 env)
            (logged AuthErrorDetected (logged (ToolCallFailed name (message e)) w1))
            = (Fulfilled tok2, w3) \<and>
          routeTool (retry_attempt env) name tok2 = Fulfilled r \<longrightarrow>
            fst (callToolRequest cfg env name w) = Fulfilled r \<and>
            logins (snd (callToolRequest cfg env name w))
              = logins w + (if usable_cached w then 1 else 2)) \<and>
         (\<not> isAuthError (message e) \<longrightarrow>
            fst (callToolRequest cfg env name w) = Fulfilled (errorResult (message e)) \<and>
            logins (snd (callToolRequest cfg env name w))
              = logins w + (if usable_cached w then 0 else 1))"
proof (intro conjI impI)
  have w1: "logins w1 = logins w + (if usable_cached w then 0 else 1)"
    using ensureAuthenticated_logins[of cfg "login1 env" w] assms(1) by simp
  {
    assume h: "isAuthError (message e) \<and>
          authorize cfg (login2 env)
            (logged AuthErrorDetected (logged (ToolCallFailed name (message e)) w1))
            = (Fulfilled tok2, w3) \<and>
          routeTool (retry_attempt env) name tok2 = Fulfilled r"
    then have w3: "logins w3 = Suc (logins w1)"
      using authorize_logins[of cfg "login2 env"
          "logged AuthErrorDetected (logged (ToolCallFailed name (message e)) w1)"]
      by simp
    from h have run: "callToolRequest cfg env name w = (Fulfilled r, logged RetryingToolCall w3)"
      using callToolRequest_retry[OF assms, of tok2 w3] by simp
    show "fst (callToolRequest cfg env name w) = Fulfilled r"
      by (simp add: run)
    show "logins (snd (callToolRequest cfg env name w))
              = logins w + (if usable_cached w then 1 else 2)"
      by (simp add: run w3 w1)
  }
  {
    assume h: "\<not> isAuthError (message e)"
    note run = callToolRequest_other_error[OF assms h]
    show "fst (callToolRequest cfg env name w) = Fulfilled (errorResult (message e))"
      by (simp add: run)
    show "logins (snd (callToolRequest cfg env name w))
              = logins w + (if usable_cached w then 0 else 1)"
      by (simp add: run w1)
  }
qed

theorem retry_once_after_auth_error_witness:
  "fst (callToolRequest example_config expired_session (asc ''list_websites'') logged_in)
     = Fulfilled listing \<and>
   logins (snd (callToolRequest example_config expired_session (asc ''list_websites'') logged_in))
     = 1 \<and>
   fst (callToolRequest example_config
          (expired_session\<lparr>first_attempt := failing_with (asc ''HTTP 500: boom'')\<rparr>)
          (asc ''list_websites'') logged_in)
     = Fulfilled (errorResult (asc ''HTTP 500: boom'')) \<and>
   logins (snd (callToolRequest example_config
          (expired_session\<lparr>first_attempt := failing_with (asc ''HTTP 500: boom'')\<rparr>)
          (asc ''list_websites'') logged_in))
     = 0"
proof -
  let ?name = "asc ''list_websites''"
  let ?env2 = "expired_session\<lparr>first_attempt := failing_with (asc ''HTTP 500: boom'')\<rparr>"
  obtain w1 where ea: "ensureAuthenticated example_config good_login logged_in
                         = (Fulfilled (asc ''tok-old''), w1)"
    using ensureAuthenticated_logged_in[of example_config good_login]
    by (cases "ensureAuthenticated example_config good_login logged_in") simp
  have ea1: "ensureAuthenticated example_config (login1 expired_session) logged_in
               = (Fulfilled (asc ''tok-old''), w1)"
    and ea2: "ensureAuthenticated example_config (login1 ?env2) logged_in
               = (Fulfilled (asc ''tok-old''), w1)"
    using ea by (simp_all add: expired_session_def)
  have f1: "routeTool (first_attempt expired_session) ?name (asc ''tok-old'')
              = Rejected (Error (asc ''HTTP 401: Unauthorized''))"
    and f2: "routeTool (first_attempt ?env2) ?name (asc ''tok-old'')
              = Rejected (Error (asc ''HTTP 500: boom''))"
    by (simp_all add: route_list expired_session_def failing_with_def)
  let ?w2 = "logged AuthErrorDetected
               (logged (ToolCallFailed ?name (message (Error (asc ''HTTP 401: Unauthorized'')))) w1)"
  obtain w3 where login: "authorize example_config (login2 expired_session) ?w2
                            = (Fulfilled (asc ''tok-new''), w3)"
    using good_login_succeeds[of ?w2]
    by (cases "authorize example_config good_login ?w2") (simp add: expired_session_def)
  have r: "routeTool (retry_attempt expired_session) ?name (asc ''tok-new'') = Fulfilled listing"
    by (simp add: route_list expired_session_def answering_def)
  have z: "logins logged_in = 0"
    by (simp add: logins_def logged_in_def fresh_install_def)
  from retry_once_after_auth_error[OF ea1 f1, of "asc ''tok-new''" w3 listing]
    retry_once_after_auth_error[OF ea2 f2, of "asc ''tok-new''" w3 listing]
    login r unauthorized_is_auth_error server_error_is_no_auth_error usable_logged_in z
  show ?thesis by simp
qed

text \<open>
  The claim as stated fails on a fresh installation: \<open>ensureAuthenticated\<close> has to log
  in before the first attempt, so that \<open>authorize()\<close> runs twice when the retry
  succeeds and once when the first attempt fails with a non-auth error.
\<close>

theorem two_logins_counterexample:
  "fst (callToolRequest example_config expired_session (asc ''list_websites'') fresh_install)
     = Fulfilled listing \<and>
   logins (snd (callToolRequest example_config expired_session (asc ''list_websites'')
                  fresh_install)) = 2 \<and>
   fst (callToolRequest example_config
          (expired_session\<lparr>first_attempt := failing_with (asc ''HTTP 500: boom'')\<rparr>)
          (asc ''list_websites'') fresh_install)
     = Fulfilled (errorResult (asc ''HTTP 500: boom'')) \<and>
   logins (snd (callToolRequest example_config
          (expired_session\<lparr>first_attempt := failing_with (asc ''HTTP 500: boom'')\<rparr>)
          (asc ''list_websites'') fresh_install)) = 1"
proof -
  let ?name = "asc ''list_websites''"
  let ?env2 = "expired_session\<lparr>first_attempt := failing_with (asc ''HTTP 500: boom'')\<rparr>"
  have none: "\<forall>td. tokenFile fresh_install \<noteq> Content (Json td)"
    by (simp add: fresh_install_def)
  have "fst (ensureAuthenticated example_config good_login fresh_install)
          = Fulfilled (asc ''tok-new'')"
    by (simp add: ensureAuthenticated_absent[OF none] good_login_succeeds)
  then obtain w1 where ea: "ensureAuthenticated example_config good_login fresh_install
                         = (Fulfilled (asc ''tok-new''), w1)"
    by (cases "ensureAuthenticated example_config good_login fresh_install") simp
  have ea1: "ensureAuthenticated example_config (login1 expired_session) fresh_install
               = (Fulfilled (asc ''tok-new''), w1)"
    and ea2: "ensureAuthenticated example_config (login1 ?env2) fresh_install
               = (Fulfilled (asc ''tok-new''), w1)"
    using ea by (simp_all add: expired_session_def)
  have w1: "logins w1 = 1"
    using ensureAuthenticated_logins[of example_config good_login fresh_install] ea
    by (simp add: usable_cached_def fresh_install_def logins_def)
  have f1: "routeTool (first_attempt expired_session) ?name (asc ''tok-new'')
              = Rejected (Error (asc ''HTTP 401: Unauthorized''))"
    and f2: "routeTool (first_attempt ?env2) ?name (asc ''tok-new'')
              = Rejected (Error (asc ''HTTP 500: boom''))"
    by (simp_all add: route_list expired_session_def failing_with_def)
  let ?w2 = "logged AuthErrorDetected
               (logged (ToolCallFailed ?name (message (Error (asc ''HTTP 401: Unauthorized'')))) w1)"
  obtain w3 where login: "authorize example_config (login2 expired_session) ?w2
                            = (Fulfilled (asc ''tok-new''), w3)"
    using good_login_succeeds[of ?w2]
    by (cases "authorize example_config good_login ?w2") (simp add: expired_session_def)
  have w3: "logins w3 = 2"
    using authorize_logins[of example_config "login2 expired_session" ?w2] login w1 by simp
  have r: "routeTool (retry_attempt expired_session) ?name (asc ''tok-new'') = Fulfilled listing"
    by (simp add: route_list expired_session_def answering_def)
  have run1: "callToolRequest example_config expired_session ?name fresh_install
                = (Fulfilled listing, logged RetryingToolCall w3)"
    using callToolRequest_retry[OF ea1 f1 _ login] unauthorized_is_auth_error r by simp
  have run2: "callToolRequest example_config ?env2 ?name fresh_install
                = (Fulfilled (errorResult (asc ''HTTP 500: boom'')),
                   logged (ToolCallFailed ?name (asc ''HTTP 500: boom'')) w1)"
    using callToolRequest_other_error[OF ea2 f2] server_error_is_no_auth_error by simp
  show ?thesis
    by (simp add: run1 run2 w3 w1)
qed

text \<open>
  Claim C4 fails on the code. With a cached credential, a first attempt refused with
  status 401, a login that succeeds and a retry that fails with status 500, the caller
  is told that the automatic login failed and is asked to log in by hand, although the
  log shows the login's success; the error of a failed first attempt is returned in
  another form.
\<close>

theorem retry_failure_reported_as_login_failure:
  "fst (callToolRequest example_config failing_retry (asc ''list_websites'') logged_in)
     = Fulfilled (autoLoginFailed (asc ''HTTP 500: boom'')) \<and>
   autoLoginFailed (asc ''HTTP 500: boom'') \<noteq> errorResult (asc ''HTTP 500: boom'') \<and>
   last (log (snd (callToolRequest example_config failing_retry (asc ''list_websites'')
                     logged_in)))
     = AutoLoginFailed (asc ''HTTP 500: boom'') \<and>
   LoginSucceeded \<in> set (log (snd (callToolRequest example_config failing_retry
                                      (asc ''list_websites'') logged_in)))"
proof -
  let ?name = "asc ''list_websites''"
  obtain w1 where ea: "ensureAuthenticated example_config good_login logged_in
                         = (Fulfilled (asc ''tok-old''), w1)"
    using ensureAuthenticated_logged_in[of example_config good_login]
    by (cases "ensureAuthenticated example_config good_login logged_in") simp
  have ea1: "ensureAuthenticated example_config (login1 failing_retry) logged_in
               = (Fulfilled (asc ''tok-old''), w1)"
    using ea by (simp add: failing_retry_def expired_session_def)
  have f1: "routeTool (first_attempt failing_retry) ?name (asc ''tok-old'')
              = Rejected (Error (asc ''HTTP 401: Unauthorized''))"
    by (simp add: route_list failing_retry_def expired_session_def failing_with_def)
  let ?w2 = "logged AuthErrorDetected
               (logged (ToolCallFailed ?name (message (Error (asc ''HTTP 401: Unauthorized'')))) w1)"
  have ok: "fst (authorize example_config good_login ?w2) = Fulfilled (asc ''tok-new'')"
    by (rule good_login_succeeds)
  then obtain w3 where login: "authorize example_config (login2 failing_retry) ?w2
                            = (Fulfilled (asc ''tok-new''), w3)"
    by (cases "authorize example_config good_login ?w2")
       (simp add: failing_retry_def expired_session_def)
  have r: "routeTool (retry_attempt failing_retry) ?name (asc ''tok-new'')
             = Rejected (Error (asc ''HTTP 500: boom''))"
    by (simp add: route_list failing_retry_def failing_with_def)
  have run: "callToolRequest example_config failing_retry ?name logged_in
               = (Fulfilled (autoLoginFailed (asc ''HTTP 500: boom'')),
                  logged (AutoLoginFailed (asc ''HTTP 500: boom'')) (logged RetryingToolCall w3))"
    using callToolRequest_retry[OF ea1 f1 _ login] unauthorized_is_auth_error r by simp
  have ne: "autoLoginFailed (asc ''HTTP 500: boom'') \<noteq> errorResult (asc ''HTTP 500: boom'')"
    by (simp add: autoLoginFailed_def errorResult_def auto_login_head_def error_text_prefix_def
        asc_def)
  have succ: "LoginSucceeded \<in> set (log w3)"
    using authorize_fulfilled_logs[of example_config "login2 failing_retry" ?w2 "asc ''tok-new''"]
      login by simp
  show ?thesis
    using ne succ by (simp add: run)
qed

subsection \<open>deployWebsite\<close>

lemma isBase64_dist: "isBase64 (asc ''dist'')"
  by (simp add: isBase64_def atob_def btoa_def strip_padding_def endsWith_def asc_def
      ascii_whitespace_def b64_alphabet_def b64_index_def b64_char_def)

lemma starts_dot: "startsWith (asc ''./dist'') (asc ''.'')" "startsWith (asc ''./site.zip'') (asc ''.'')"
  "startsWith (asc ''./notes.txt'') (asc ''.'')"
  by (simp_all add: startsWith_def asc_def)

text \<open>
  Claim C8, as amended. A URL that starts with \<open>http://\<close> or \<open>https://\<close> is downloaded
  when it ends in \<open>.zip\<close> and rejected when it does not. Of the other inputs, one that
  is read as a local path is archived when it names an existing directory and used
  as it is when it names an existing file that ends in \<open>.zip\<close>; and every input that
  names no existing path, or an existing file that does not end in \<open>.zip\<close>, is
  rejected. Nothing is said of an existing directory or \<open>.zip\<close> file whose name passes
  the base64 test and starts with neither \<open>/\<close> nor \<open>.\<close>.
\<close>

theorem deployWebsite_resolve_by_shape:
  "(is_url z \<and> zip_suffix z \<longrightarrow> deployWebsite_resolve fs z = Inr (Download z)) \<and>
   (is_url z \<and> \<not> zip_suffix z \<longrightarrow> deployWebsite_resolve fs z = Inl (Error url_not_zip_msg)) \<and>
   (\<not> is_url z \<and> read_as_path z \<and> fs z = Some st \<and> isDirectory st \<longrightarrow>
      deployWebsite_resolve fs z = Inr (ZipDirectory z)) \<and>
   (\<not> is_url z \<and> read_as_path z \<and> fs z = Some st \<and> \<not> isDirectory st \<and> zip_suffix z \<longrightarrow>
      deployWebsite_resolve fs z = Inr (UseAsIs z)) \<and>
   (\<not> is_url z \<and> (fs z = None \<or> (fs z = Some st \<and> \<not> isDirectory st \<and> \<not> zip_suffix z)) \<longrightarrow>
      (\<exists>e. deployWebsite_resolve fs z = Inl e))"
  by (auto simp: deployWebsite_resolve_def is_url_def zip_suffix_def read_as_path_def getPathStat_def)

theorem deployWebsite_resolve_by_shape_witness:
  "deployWebsite_resolve project_fs (asc ''https://example.com/site.zip'')
     = Inr (Download (asc ''https://example.com/site.zip'')) \<and>
   deployWebsite_resolve project_fs (asc ''https://example.com/site.tar'') = Inl (Error url_not_zip_msg) \<and>
   deployWebsite_resolve project_fs (asc ''./dist'') = Inr (ZipDirectory (asc ''./dist'')) \<and>
   deployWebsite_resolve project_fs (asc ''./site.zip'') = Inr (UseAsIs (asc ''./site.zip'')) \<and>
   (\<exists>e. deployWebsite_resolve project_fs (asc ''./notes.txt'') = Inl e)"
proof -
  let ?dir = "\<lparr>isFile = False, isDirectory = True, size = 4096\<rparr>"
  let ?zip = "\<lparr>isFile = True, isDirectory = False, size = 20000\<rparr>"
  let ?txt = "\<lparr>isFile = True, isDirectory = False, size = 120\<rparr>"
  have u1: "is_url (asc ''https://example.com/site.zip'') \<and> zip_suffix (asc ''https://example.com/site.zip'')"
    by (simp add: is_url_def zip_suffix_def startsWith_def endsWith_def toLowerCase_def asc_def)
  have u2: "is_url (asc ''https://example.com/site.tar'') \<and> \<not> zip_suffix (asc ''https://example.com/site.tar'')"
    by (simp add: is_url_def zip_suffix_def startsWith_def endsWith_def toLowerCase_def asc_def)
  have d: "\<not> is_url (asc ''./dist'') \<and> read_as_path (asc ''./dist'') \<and>
           project_fs (asc ''./dist'') = Some ?dir \<and> isDirectory ?dir"
    by (simp add: is_url_def read_as_path_def starts_dot project_fs_def)
       (simp add: startsWith_def asc_def)
  have f: "\<not> is_url (asc ''./site.zip'') \<and> read_as_path (asc ''./site.zip'') \<and>
           project_fs (asc ''./site.zip'') = Some ?zip \<and> \<not> isDirectory ?zip \<and>
           zip_suffix (asc ''./site.zip'')"
    by (simp add: is_url_def read_as_path_def starts_dot project_fs_def zip_suffix_def)
       (simp add: startsWith_def endsWith_def toLowerCase_def asc_def)
  have n: "\<not> is_url (asc ''./notes.txt'') \<and>
           (project_fs (asc ''./notes.txt'') = None \<or>
            (project_fs (asc ''./notes.txt'') = Some ?txt \<and> \<not> isDirectory ?txt \<and>
             \<not> zip_suffix (asc ''./notes.txt'')))"
    by (simp add: is_url_def project_fs_def zip_suffix_def)
       (simp add: startsWith_def endsWith_def toLowerCase_def asc_def)
  note shape = deployWebsite_resolve_by_shape
  have "deployWebsite_resolve project_fs (asc ''https://example.com/site.zip'')
          = Inr (Download (asc ''https://example.com/site.zip''))"
    by (rule shape[of "asc ''https://example.com/site.zip''" project_fs ?dir, THEN conjunct1,
          rule_format, OF u1])
  moreover have "deployWebsite_resolve project_fs (asc ''https://example.com/site.tar'')
          = Inl (Error url_not_zip_msg)"
    by (rule shape[of "asc ''https://example.com/site.tar''" project_fs ?dir, THEN conjunct2,
          THEN conjunct1, rule_format, OF u2])
  moreover have "deployWebsite_resolve project_fs (asc ''./dist'') = Inr (ZipDirectory (asc ''./dist''))"
    by (rule shape[of "asc ''./dist''" project_fs ?dir, THEN conjunct2, THEN conjunct2,
          THEN conjunct1, rule_format, OF d])
  moreover have "deployWebsite_resolve project_fs (asc ''./site.zip'') = Inr (UseAsIs (asc ''./site.zip''))"
    by (rule shape[of "asc ''./site.zip''" project_fs ?zip, THEN conjunct2, THEN conjunct2,
          THEN conjunct2, THEN conjunct1, rule_format, OF f])
  moreover have "\<exists>e. deployWebsite_resolve project_fs (asc ''./notes.txt'') = Inl e"
    by (rule shape[of "asc ''./notes.txt''" project_fs ?txt, THEN conjunct2, THEN conjunct2,
          THEN conjunct2, THEN conjunct2, rule_format, OF n])
  ultimately show ?thesis by blast
qed

text \<open>
  The claim as stated fails twice: the existing directory \<open>dist\<close> is rejected as
  inline base64 content (its name is four characters of the base64 alphabet and
  starts with neither \<open>/\<close> nor \<open>.\<close>), and a URL that starts with \<open>http://\<close> and ends in
  \<open>.zip\<close> is downloaded although it is not an HTTPS URL.
\<close>

theorem directory_rejected_as_base64_counterexample:
  "project_fs (asc ''dist'') = Some \<lparr>isFile = False, isDirectory = True, size = 4096\<rparr> \<and>
   deployWebsite_resolve project_fs (asc ''dist'') = Inl (Error base64_unsupported_msg) \<and>
   deployWebsite_resolve project_fs (asc ''http://example.com/site.zip'')
     = Inr (Download (asc ''http://example.com/site.zip''))"
proof -
  have a: "project_fs (asc ''dist'') = Some \<lparr>isFile = False, isDirectory = True, size = 4096\<rparr>"
    by (simp add: project_fs_def)
  have b: "\<not> startsWith (asc ''dist'') (asc ''http://'')" "\<not> startsWith (asc ''dist'') (asc ''https://'')"
    "\<not> startsWith (asc ''dist'') (asc ''/'')" "\<not> startsWith (asc ''dist'') (asc ''.'')"
    by (simp_all add: startsWith_def asc_def)
  have c: "deployWebsite_resolve project_fs (asc ''dist'') = Inl (Error base64_unsupported_msg)"
    by (simp add: deployWebsite_resolve_def b isBase64_dist)
  have d: "deployWebsite_resolve project_fs (asc ''http://example.com/site.zip'')
     = Inr (Download (asc ''http://example.com/site.zip''))"
    by (simp add: deployWebsite_resolve_def startsWith_def endsWith_def toLowerCase_def asc_def)
  from a c d show ?thesis by simp
qed


text \<open>
  The defect behind the first half, in general: a name made of base64 characters
  whose number is a multiple of four survives the round trip through \<open>atob\<close> and
  \<open>btoa\<close>, so that \<open>isBase64\<close> takes it for inline content; unless it starts with \<open>/\<close>
  it is rejected before the file system is looked at, whatever it names there.
\<close>

lemma quad_round_trip:
  fixes a b c d :: nat
  assumes "a < 64" "b < 64" "c < 64" "d < 64"
  shows "(a * 4 + b div 16) div 4 = a"
    and "((a * 4 + b div 16) mod 4) * 16 + ((b mod 16) * 16 + c div 4) div 16 = b"
    and "(((b mod 16) * 16 + c div 4) mod 16) * 4 + ((c mod 4) * 64 + d) div 64 = c"
    and "((c mod 4) * 64 + d) mod 64 = d"
proof -
  have q: "b div 16 < 4" "c div 4 < 16"
    using assms by simp_all
  show "(a * 4 + b div 16) div 4 = a"
    using q by simp
  have "(a * 4 + b div 16) mod 4 = b div 16"
    using q by simp
  moreover have "((b mod 16) * 16 + c div 4) div 16 = b mod 16"
    using q by simp
  ultimately show "((a * 4 + b div 16) mod 4) * 16 + ((b mod 16) * 16 + c div 4) div 16 = b"
    by simp
  have "((b mod 16) * 16 + c div 4) mod 16 = c div 4"
    using q by simp
  moreover have "((c mod 4) * 64 + d) div 64 = c mod 4"
    using assms by simp
  ultimately show "(((b mod 16) * 16 + c div 4) mod 16) * 4 + ((c mod 4) * 64 + d) div 64 = c"
    by simp
  show "((c mod 4) * 64 + d) mod 64 = d"
    using assms by simp
qed

lemma quad_bytes:
  fixes a b c d :: nat
  assumes "a < 64" "b < 64" "c < 64" "d < 64"
  shows "a * 4 + b div 16 < 256" "(b mod 16) * 16 + c div 4 < 256" "(c mod 4) * 64 + d < 256"
proof -
  have "b div 16 < 4" "c div 4 < 16" "b mod 16 < 16" "c mod 4 < 4"
    using assms by simp_all
  then show "a * 4 + b div 16 < 256" "(b mod 16) * 16 + c div 4 < 256" "(c mod 4) * 64 + d < 256"
    using assms by linarith+
qed

lemma b64_char_index: "b64_alphabet c \<Longrightarrow> b64_char (b64_index c) = c"
  by (auto simp: b64_alphabet_def b64_index_def b64_char_def)

lemma b64_index_less: "b64_alphabet c \<Longrightarrow> b64_index c < 64"
  by (auto simp: b64_alphabet_def b64_index_def)

lemma encode_decode_quads:
  "length vs mod 4 = 0 \<Longrightarrow> list_all (\<lambda>v. v < 64) vs \<Longrightarrow>
   encode_bytes (decode_sextets vs) = map b64_char vs \<and>
   list_all (\<lambda>c. c < 256) (decode_sextets vs)"
proof (induction vs rule: decode_sextets.induct)
  case (1 a b c d rest)
  then have bounds: "a < 64" "b < 64" "c < 64" "d < 64"
    and rest: "length rest mod 4 = 0" "list_all (\<lambda>v. v < 64) rest"
    by simp_all
  note ih = "1.IH"[OF rest]
  have enc: "encode_bytes (decode_sextets (a # b # c # d # rest))
               = [b64_char a, b64_char b, b64_char c, b64_char d]
                 @ encode_bytes (decode_sextets rest)"
    by (simp only: decode_sextets.simps encode_bytes.simps append_Cons append_Nil
        quad_round_trip[OF bounds])
  have small: "list_all (\<lambda>c. c < 256) (decode_sextets (a # b # c # d # rest))"
    using quad_bytes[OF bounds] ih by simp
  from enc small ih show ?case by simp
qed simp_all

lemma startsWith_all:
  "startsWith z p \<Longrightarrow> list_all P z \<Longrightarrow> list_all P p"
  by (metis startsWith_def list_all_iff in_set_takeD)

lemma isBase64_quads:
  assumes "list_all b64_alphabet z" and "length z mod 4 = 0"
  shows "isBase64 z"
proof -
  have nw: "filter (\<lambda>c. \<not> ascii_whitespace c) z = z"
    using assms(1)
    by (auto simp: list_all_iff b64_alphabet_def ascii_whitespace_def intro!: filter_True)
  have np: "strip_padding z = z"
  proof (cases z rule: rev_cases)
    case Nil
    then show ?thesis by (simp add: strip_padding_def endsWith_def)
  next
    case (snoc ys y)
    with assms(1) have "y \<noteq> 61"
      by (auto simp: b64_alphabet_def)
    with snoc show ?thesis
      by (cases ys rule: rev_cases) (simp_all add: strip_padding_def endsWith_def)
  qed
  have idx: "list_all (\<lambda>v. v < 64) (map b64_index z)"
    using assms(1) by (auto simp: list_all_iff b64_index_less)
  have len: "length (map b64_index z) mod 4 = 0"
    using assms(2) by simp
  note rt = encode_decode_quads[OF len idx]
  have again: "map b64_char (map b64_index z) = z"
    using assms(1) by (induction z) (simp_all add: b64_char_index)
  have "atob z = Inr (decode_sextets (map b64_index z))"
    using assms by (simp add: atob_def nw np Let_def)
  moreover have "btoa (decode_sextets (map b64_index z)) = Inr z"
    using rt again by (simp add: btoa_def)
  ultimately show ?thesis
    by (simp add: isBase64_def)
qed

lemma bare_name_rejected:
  assumes "list_all b64_alphabet z" and "length z mod 4 = 0"
    and "\<not> startsWith z (asc ''/'')"
  shows "deployWebsite_resolve fs z = Inl (Error base64_unsupported_msg)"
proof -
  have "\<not> list_all b64_alphabet (asc ''.'')" "\<not> list_all b64_alphabet (asc ''http://'')"
    "\<not> list_all b64_alphabet (asc ''https://'')"
    by (simp_all add: asc_def b64_alphabet_def)
  then have no: "\<not> startsWith z (asc ''.'')" "\<not> startsWith z (asc ''http://'')"
    "\<not> startsWith z (asc ''https://'')"
    using startsWith_all[OF _ assms(1)] by blast+
  show ?thesis
    using isBase64_quads[OF assms(1,2)] assms(3) no
    by (simp add: deployWebsite_resolve_def)
qed

subsection \<open>listWebsites\<close>

lemma callFunction_ok:
  assumes "resp_ok response" and "resp_json response = Inr data"
    and "\<not> truthy (member data (asc ''error''))"
  shows "callFunction (Inr response) = Fulfilled data"
  using assms
  by (cases data)
     (auto simp: callFunction_def get_prop_def truthy_def member_def split: option.splits)

text \<open>
  Claim C10, as amended. For a backend answer with an OK status whose body is JSON, is
  not \<open>null\<close> and has no truthy \<open>error\<close> field, \<open>listWebsites\<close> returns the body's \<open>files\<close>
  when that is truthy, and the empty list when the body has no \<open>files\<close> field or a falsy
  one. An answer with another status, and one whose body has a truthy \<open>error\<close> field,
  make \<open>listWebsites\<close> fail with an error that carries the status and the text, or the
  envelope's code and message.
\<close>

theorem listWebsites_files_or_empty:
  "(resp_ok response \<and> resp_json response = Inr data \<and> data \<noteq> JNull \<and>
    \<not> truthy (member data (asc ''error'')) \<longrightarrow>
      listWebsites (Inr response) =
        Fulfilled (case member data (asc ''files'') of
                     None \<Rightarrow> JArr []
                   | Some v \<Rightarrow> if truthy (Some v) then v else JArr [])) \<and>
   (\<not> resp_ok response \<longrightarrow>
      listWebsites (Inr response) =
        Rejected (Error (asc ''HTTP '' @ decimal (resp_status response) @ asc '': '' @
                         resp_text response))) \<and>
   (resp_ok response \<and> resp_json response = Inr data \<and>
    member data (asc ''error'') = Some err \<and> truthy (Some err) \<longrightarrow>
      listWebsites (Inr response) = Rejected (Error (envelope_message err)))"
proof (intro conjI impI)
  assume h: "resp_ok response \<and> resp_json response = Inr data \<and> data \<noteq> JNull \<and>
    \<not> truthy (member data (asc ''error''))"
  then have "callFunction (Inr response) = Fulfilled data"
    using callFunction_ok by blast
  with h show "listWebsites (Inr response) =
        Fulfilled (case member data (asc ''files'') of
                     None \<Rightarrow> JArr []
                   | Some v \<Rightarrow> if truthy (Some v) then v else JArr [])"
    by (cases data) (simp_all add: listWebsites_def get_prop_def split: option.splits)
next
  assume "\<not> resp_ok response"
  then show "listWebsites (Inr response) =
        Rejected (Error (asc ''HTTP '' @ decimal (resp_status response) @ asc '': '' @
                         resp_text response))"
    by (simp add: listWebsites_def callFunction_def)
next
  assume h: "resp_ok response \<and> resp_json response = Inr data \<and>
    member data (asc ''error'') = Some err \<and> truthy (Some err)"
  then have "truthy (Some data)" "data \<noteq> JNull"
    by (cases data; simp add: member_def truthy_def)+
  with h have "callFunction (Inr response) = Rejected (Error (envelope_message err))"
    by (cases data) (simp_all add: callFunction_def get_prop_def)
  then show "listWebsites (Inr response) = Rejected (Error (envelope_message err))"
    by (simp add: listWebsites_def)
qed

theorem listWebsites_files_or_empty_witness:
  "listWebsites (Inr (ok_response (JObj [(asc ''files'', JArr [one_site]), (asc ''count'', JNum 1)])))
     = Fulfilled (JArr [one_site]) \<and>
   listWebsites (Inr (ok_response (JObj [(asc ''count'', JNum 0)]))) = Fulfilled (JArr []) \<and>
   listWebsites (Inr \<lparr>resp_ok = False, resp_status = 502, resp_text = asc ''Bad Gateway'',
                      resp_json = Inl (asc ''Unexpected token'')\<rparr>)
     = Rejected (Error (asc ''HTTP 502: Bad Gateway'')) \<and>
   listWebsites (Inr (ok_response error_envelope))
     = Rejected (Error (asc ''[UNAUTHORIZED] token expired''))"
proof -
  let ?full = "JObj [(asc ''files'', JArr [one_site]), (asc ''count'', JNum 1)]"
  let ?empty = "JObj [(asc ''count'', JNum 0)]"
  let ?bad = "\<lparr>resp_ok = False, resp_status = 502, resp_text = asc ''Bad Gateway'',
                      resp_json = Inl (asc ''Unexpected token'')\<rparr>"
  let ?err = "JObj [(asc ''code'', JStr (asc ''UNAUTHORIZED'')),
                  (asc ''message'', JStr (asc ''token expired''))]"
  have a: "resp_ok (ok_response ?full) \<and> resp_json (ok_response ?full) = Inr ?full \<and>
           ?full \<noteq> JNull \<and> \<not> truthy (member ?full (asc ''error''))"
    by (simp add: ok_response_def member_def truthy_def asc_def)
  have a': "member ?full (asc ''files'') = Some (JArr [one_site])"
    by (simp add: member_def asc_def)
  have b: "resp_ok (ok_response ?empty) \<and> resp_json (ok_response ?empty) = Inr ?empty \<and>
           ?empty \<noteq> JNull \<and> \<not> truthy (member ?empty (asc ''error''))"
    by (simp add: ok_response_def member_def truthy_def asc_def)
  have b': "member ?empty (asc ''files'') = None"
    by (simp add: member_def asc_def)
  have c: "\<not> resp_ok ?bad" by simp
  have c': "asc ''HTTP '' @ decimal (resp_status ?bad) @ asc '': '' @ resp_text ?bad
              = asc ''HTTP 502: Bad Gateway''"
    by (simp add: asc_def)
  have d: "resp_ok (ok_response error_envelope) \<and>
           resp_json (ok_response error_envelope) = Inr error_envelope \<and>
           member error_envelope (asc ''error'') = Some ?err \<and> truthy (Some ?err)"
    by (simp add: ok_response_def error_envelope_def member_def truthy_def asc_def)
  have d': "envelope_message ?err = asc ''[UNAUTHORIZED] token expired''"
    by (simp add: envelope_message_def member_def template_def truthy_def asc_def)
  note lw = listWebsites_files_or_empty
  have "listWebsites (Inr (ok_response ?full)) = Fulfilled (JArr [one_site])"
    using lw[of "ok_response ?full" ?full ?err, THEN conjunct1, rule_format, OF a]
    by (simp add: a' truthy_def)
  moreover have "listWebsites (Inr (ok_response ?empty)) = Fulfilled (JArr [])"
    using lw[of "ok_response ?empty" ?empty ?err, THEN conjunct1, rule_format, OF b]
    by (simp add: b')
  moreover have "listWebsites (Inr ?bad) = Rejected (Error (asc ''HTTP 502: Bad Gateway''))"
    using lw[of ?bad ?empty ?err, THEN conjunct2, THEN conjunct1, rule_format, OF c]
    by (simp only: c')
  moreover have "listWebsites (Inr (ok_response error_envelope))
                   = Rejected (Error (asc ''[UNAUTHORIZED] token expired''))"
    using lw[of "ok_response error_envelope" error_envelope ?err, THEN conjunct2,
        THEN conjunct2, rule_format, OF d]
    by (simp only: d')
  ultimately show ?thesis by blast
qed

text \<open>
  The claim as stated fails: an error envelope is a backend answer without a \<open>files\<close>
  field, and \<open>listWebsites\<close> fails on it; on the body \<open>null\<close> it fails with a TypeError.
\<close>

theorem listWebsites_error_counterexample:
  "member error_envelope (asc ''files'') = None \<and>
   listWebsites (Inr (ok_response error_envelope))
     = Rejected (Error (asc ''[UNAUTHORIZED] token expired'')) \<and>
   listWebsites (Inr (ok_response JNull))
     = Rejected (TypeError (asc ''Cannot read properties of null (reading '' @ [39] @
                            asc ''files'' @ [39] @ asc '')''))"
  by (simp add: listWebsites_def callFunction_def ok_response_def error_envelope_def get_prop_def
      member_def truthy_def envelope_message_def template_def asc_def)

subsection \<open>The state token\<close>

lemma random_string_digits:
  "random_string r \<Longrightarrow> list_all base36_digit (substring r 2 15)"
  by (auto simp: random_string_def substring_def asc_def list_all_iff dest: in_set_takeD)

text \<open>
  Claim C9, as amended. The state token is made of the first thirteen (at most)
  base-36 digits of each of the two random strings: it has as many characters as
  these have digits after \<open>0.\<close>, at most 26, all of them digits or lower-case letters.
\<close>

theorem generateRandomState_shape:
  assumes "random_string r1" and "random_string r2"
  shows "length (generateRandomState r1 r2)
           = min 13 (length r1 - 2) + min 13 (length r2 - 2) \<and>
         length (generateRandomState r1 r2) \<le> 26 \<and>
         list_all base36_digit (generateRandomState r1 r2)"
  using random_string_digits[OF assms(1)] random_string_digits[OF assms(2)]
  by (auto simp: generateRandomState_def substring_def)

theorem generateRandomState_shape_witness:
  "random_string (asc ''0.4fzyo82mvyr'') \<and> random_string (asc ''0.k29x7c1qp3'') \<and>
   length (generateRandomState (asc ''0.4fzyo82mvyr'') (asc ''0.k29x7c1qp3'')) = 21 \<and>
   list_all base36_digit (generateRandomState (asc ''0.4fzyo82mvyr'') (asc ''0.k29x7c1qp3''))"
proof -
  have r1: "random_string (asc ''0.4fzyo82mvyr'')"
    by (simp add: random_string_def asc_def base36_digit_def)
  have r2: "random_string (asc ''0.k29x7c1qp3'')"
    by (simp add: random_string_def asc_def base36_digit_def)
  from generateRandomState_shape[OF r1 r2] r1 r2 show ?thesis
    by (simp add: asc_def)
qed

text \<open>
  The claim as stated fails: \<open>0.5\<close> is written \<open>0.i\<close> in base 36, and two such random
  numbers give a state token of two characters; two zeros give the empty token.
\<close>

theorem generateRandomState_short_counterexample:
  "random_string (asc ''0.i'') \<and>
   generateRandomState (asc ''0.i'') (asc ''0.i'') = asc ''ii'' \<and>
   length (generateRandomState (asc ''0.i'') (asc ''0.i'')) < 20 \<and>
   random_string (asc ''0'') \<and>
   generateRandomState (asc ''0'') (asc ''0'') = []"
  by (simp add: random_string_def generateRandomState_def substring_def asc_def base36_digit_def)

end
